theory Spec2Isabelle
  imports Complex_Main "HOL-Library.Sublist"
begin

section \<open>JavaScript values, exceptions and the runtime\<close>

text \<open>
  The server handles values that arrive as parsed JSON (request bodies, upstream
  responses) together with \<open>undefined\<close> for absent properties and parameters.
  Strings are lists of code units (the texts of the server itself are Latin-1, one
  \<open>char\<close> each); an object is the list of its own properties, in insertion order.
\<close>

datatype jsval =
    Undefined
  | Null
  | Bool bool
  | Num rat
  | Str string
  | Arr "jsval list"
  | Obj "(string \<times> jsval) list"

datatype exn = Error string | TypeError string | SyntaxError string

fun message :: "exn \<Rightarrow> string" where
  "message (Error m) = m"
| "message (TypeError m) = m"
| "message (SyntaxError m) = m"

text \<open>
  The exceptions that the runtime itself throws while the server's code runs: reading
  a property of \<open>null\<close> or \<open>undefined\<close>, calling a property that is not a function,
  converting to a string an object that has no usable \<open>toString\<close>. Which exception
  object (and message) the runtime makes of each is the runtime's business.
\<close>

datatype fault =
    ReadOfNullish jsval string
  | NotAFunction jsval string
  | NotPrimitive jsval

text \<open>Truthiness, as tested by \<open>!x\<close>, \<open>x || y\<close>, \<open>x && y\<close> and \<open>if (x)\<close>.\<close>

fun truthy :: "jsval \<Rightarrow> bool" where
  "truthy Undefined = False"
| "truthy Null = False"
| "truthy (Bool b) = b"
| "truthy (Num r) = (r \<noteq> 0)"
| "truthy (Str s) = (s \<noteq> [])"
| "truthy (Arr xs) = True"
| "truthy (Obj fs) = True"

definition or_else :: "jsval \<Rightarrow> jsval \<Rightarrow> jsval" where
  "or_else a b = (if truthy a then a else b)"

definition nullish :: "jsval \<Rightarrow> bool" where
  "nullish v = (v = Undefined \<or> v = Null)"

text \<open>
  Reading a property \<open>v.k\<close> of a value that is neither \<open>null\<close> nor \<open>undefined\<close>.
  Only names that are not built-in properties of arrays and strings are read this way
  (\<open>text\<close>, \<open>to\<close>, \<open>type\<close>, \<open>data\<close>, \<open>participants\<close>, ...), so only objects
  answer with something else than \<open>undefined\<close>.
\<close>

fun own_prop :: "jsval \<Rightarrow> string \<Rightarrow> jsval" where
  "own_prop (Obj fs) k = (case map_of fs k of Some v \<Rightarrow> v | None \<Rightarrow> Undefined)"
| "own_prop v k = Undefined"

text \<open>\<open>v?.k\<close> yields \<open>undefined\<close> on \<open>null\<close> and \<open>undefined\<close>.\<close>

definition opt_get :: "jsval \<Rightarrow> string \<Rightarrow> jsval" where
  "opt_get v k = (if nullish v then Undefined else own_prop v k)"

text \<open>\<open>v?.[0]\<close>: the first element of an array, the first code unit of a string,
  the property \<open>"0"\<close> of an object.\<close>

fun opt_at0 :: "jsval \<Rightarrow> jsval" where
  "opt_at0 (Arr []) = Undefined"
| "opt_at0 (Arr (x # xs)) = x"
| "opt_at0 (Str []) = Undefined"
| "opt_at0 (Str (c # cs)) = Str [c]"
| "opt_at0 (Obj fs) = own_prop (Obj fs) ''0''"
| "opt_at0 v = Undefined"

fun isArray :: "jsval \<Rightarrow> bool" where
  "isArray (Arr xs) = True"
| "isArray v = False"

text \<open>\<open>String.prototype.includes\<close>: the needle occurs as a contiguous substring.\<close>

fun str_includes :: "string \<Rightarrow> string \<Rightarrow> bool" where
  "str_includes [] p = (p = [])"
| "str_includes (c # cs) p = (prefix p (c # cs) \<or> str_includes cs p)"

text \<open>
  Built-ins of the runtime whose results the server only passes on are parameters:
  the exception made of a fault, number formatting, \<open>JSON.stringify\<close> (which does not
  throw on these values), \<open>toUpperCase\<close>, \<open>trim\<close> and the comparison \<open>x > 0\<close> on an
  arbitrary value (which throws where the value cannot be converted to a number). The outside world is a parameter too: the environment variables,
  the answer of \<open>fetch\<close> to a request (given the requests issued before it), and
  whether a write to a subscriber's channel throws.
\<close>

datatype req_body = NoBody | FormBody "(string \<times> string) list" | TextBody string

record request =
  req_url :: string
  req_query :: "(string \<times> string) list"
  req_method :: string
  req_headers :: "(string \<times> string) list"
  req_body :: req_body

record response =
  resp_status :: nat
  resp_json :: "exn + jsval"

definition resp_ok :: "response \<Rightarrow> bool" where
  "resp_ok r = (200 \<le> resp_status r \<and> resp_status r \<le> 299)"

record http_response =
  res_status :: nat
  res_json :: jsval

type_synonym client = nat

record env =
  process_env :: "string \<Rightarrow> string option"
  fetch :: "request list \<Rightarrow> request \<Rightarrow> exn + response"
  write_outcome :: "client \<Rightarrow> string \<Rightarrow> exn option"
  runtime_error :: "fault \<Rightarrow> exn"
  NumberToString :: "rat \<Rightarrow> string"
  JSON_stringify :: "jsval \<Rightarrow> string"
  toUpperCase :: "string \<Rightarrow> string"
  trim :: "string \<Rightarrow> string"
  gt_zero :: "jsval \<Rightarrow> exn + bool"

text \<open>\<open>v.k\<close> throws on \<open>null\<close> and \<open>undefined\<close>.\<close>

definition get :: "env \<Rightarrow> jsval \<Rightarrow> string \<Rightarrow> exn + jsval" where
  "get E v k = (if nullish v then Inl (runtime_error E (ReadOfNullish v k))
                else Inr (own_prop v k))"

text \<open>
  \<open>ToString\<close>, as applied by template literals, \<open>URLSearchParams\<close> and string
  concatenation. \<open>undefined\<close> becomes the text \<open>undefined\<close>. An object is converted
  through its \<open>toString\<close>: the inherited one gives \<open>[object Object]\<close>; an own
  property \<open>toString\<close> of a JSON object is never a function, \<open>valueOf\<close> returns the
  object itself, and the conversion throws. An array joins its elements with commas,
  \<open>null\<close> and \<open>undefined\<close> elements printing as nothing and the others being
  converted in turn, from left to right.
\<close>

fun join_comma :: "string list \<Rightarrow> string" where
  "join_comma [] = []"
| "join_comma [s] = s"
| "join_comma (s # t # ss) = s @ '','' @ join_comma (t # ss)"

fun sequence_exn :: "(exn + 'a) list \<Rightarrow> exn + 'a list" where
  "sequence_exn [] = Inr []"
| "sequence_exn (Inl e # rs) = Inl e"
| "sequence_exn (Inr x # rs) = (case sequence_exn rs of Inl e \<Rightarrow> Inl e | Inr xs \<Rightarrow> Inr (x # xs))"

fun ToString :: "env \<Rightarrow> jsval \<Rightarrow> exn + string" where
  "ToString E Undefined = Inr ''undefined''"
| "ToString E Null = Inr ''null''"
| "ToString E (Bool b) = Inr (if b then ''true'' else ''false'')"
| "ToString E (Num r) = Inr (NumberToString E r)"
| "ToString E (Str s) = Inr s"
| "ToString E (Arr xs) =
     (case sequence_exn (map (\<lambda>x. if nullish x then Inr [] else ToString E x) xs) of
        Inl e \<Rightarrow> Inl e
      | Inr ss \<Rightarrow> Inr (join_comma ss))"
| "ToString E (Obj fs) =
     (if map_of fs ''toString'' \<noteq> None then Inl (runtime_error E (NotPrimitive (Obj fs)))
      else Inr ''[object Object]'')"

text \<open>The method call \<open>v.toString()\<close>.\<close>

definition call_toString :: "env \<Rightarrow> jsval \<Rightarrow> exn + string" where
  "call_toString E v =
     (if nullish v then Inl (runtime_error E (ReadOfNullish v ''toString''))
      else case v of
        Obj fs \<Rightarrow>
          if map_of fs ''toString'' \<noteq> None then Inl (runtime_error E (NotAFunction v ''toString''))
          else Inr ''[object Object]''
      | _ \<Rightarrow> ToString E v)"

section \<open>Server-sent events: the subscriber registry and broadcast\<close>

text \<open>
  \<open>sseClients\<close> is a \<open>Set\<close> of open response objects: here the list of its members
  in insertion order, each client once. \<open>wire\<close> records every chunk that a client's
  \<open>write\<close> accepted. \<open>JSON.stringify\<close> does not throw on a parsed JSON value, so the
  only statement of \<open>broadcast\<close> that can throw is the write inside the \<open>try\<close>.
\<close>

record sse_world =
  sseClients :: "client list"
  wire :: "(client \<times> string) list"

definition client_write :: "env \<Rightarrow> client \<Rightarrow> string \<Rightarrow> sse_world \<Rightarrow> exn + sse_world" where
  "client_write E c data w =
     (case write_outcome E c data of
        Some e \<Rightarrow> Inl e
      | None \<Rightarrow> Inr (w\<lparr>wire := wire w @ [(c, data)]\<rparr>))"

definition sse_delete :: "client \<Rightarrow> sse_world \<Rightarrow> sse_world" where
  "sse_delete c w = w\<lparr>sseClients := removeAll c (sseClients w)\<rparr>"

text \<open>A \<open>for ... of\<close> loop whose body may throw: the first exception leaves the loop.\<close>

fun for_of :: "'a list \<Rightarrow> ('a \<Rightarrow> 's \<Rightarrow> exn + 's) \<Rightarrow> 's \<Rightarrow> exn + 's" where
  "for_of [] f s = Inr s"
| "for_of (x # xs) f s = (case f x s of Inl e \<Rightarrow> Inl e | Inr s' \<Rightarrow> for_of xs f s')"

definition nl :: string where
  "nl = [CHR 0x0A]"

definition sse_data :: "env \<Rightarrow> string \<Rightarrow> jsval \<Rightarrow> string" where
  "sse_data E type payload =
     ''event: '' @ type @ nl @ ''data: '' @ JSON_stringify E payload @ nl @ nl"

text \<open>
  The loop visits the clients registered when it starts; the only change to the set
  while it runs is the removal of the client just visited, so a snapshot of the
  members is what the iterator sees.
\<close>

definition broadcast :: "env \<Rightarrow> string \<Rightarrow> jsval \<Rightarrow> sse_world \<Rightarrow> exn + sse_world" where
  "broadcast E type payload w =
     (let data = sse_data E type payload in
      for_of (sseClients w)
        (\<lambda>client w. case client_write E client data w of
                       Inr w' \<Rightarrow> Inr w'
                     | Inl error \<Rightarrow> Inr (sse_delete client w))
        w)"

section \<open>Configuration\<close>

text \<open>An environment variable is a string or \<open>undefined\<close>; \<open>process.env.X || d\<close>
  takes the default when the variable is unset or empty. \<open>config_text\<close> is the text
  of such a value in a template literal or a header.\<close>

definition env_val :: "env \<Rightarrow> string \<Rightarrow> jsval" where
  "env_val E name = (case process_env E name of None \<Rightarrow> Undefined | Some s \<Rightarrow> Str s)"

fun config_text :: "jsval \<Rightarrow> string" where
  "config_text (Str s) = s"
| "config_text v = ''undefined''"

definition OPENPHONE_API :: "env \<Rightarrow> jsval" where
  "OPENPHONE_API E = or_else (env_val E ''OPENPHONE_API'') (Str ''https://api.openphone.com/v1'')"

definition OPENPHONE_API_KEY :: "env \<Rightarrow> jsval" where
  "OPENPHONE_API_KEY E = env_val E ''OPENPHONE_API_KEY''"

definition OPENPHONE_FROM :: "env \<Rightarrow> jsval" where
  "OPENPHONE_FROM E = env_val E ''OPENPHONE_FROM''"

definition OPENPHONE_USER_ID :: "env \<Rightarrow> jsval" where
  "OPENPHONE_USER_ID E = env_val E ''OPENPHONE_USER_ID''"

definition TRANSLATE_PROVIDER :: "env \<Rightarrow> jsval" where
  "TRANSLATE_PROVIDER E = or_else (env_val E ''TRANSLATE_PROVIDER'') (Str ''LIBRE'')"

definition DEEPL_API_KEY :: "env \<Rightarrow> jsval" where
  "DEEPL_API_KEY E = env_val E ''DEEPL_API_KEY''"

definition LIBRE_URL :: "env \<Rightarrow> jsval" where
  "LIBRE_URL E = or_else (env_val E ''LIBRE_URL'') (Str ''https://libretranslate.com'')"

definition LIBRE_API_KEY :: "env \<Rightarrow> jsval" where
  "LIBRE_API_KEY E = env_val E ''LIBRE_API_KEY''"

definition OPENAI_API_KEY :: "env \<Rightarrow> jsval" where
  "OPENAI_API_KEY E = env_val E ''OPENAI_API_KEY''"

text \<open>The header value is converted to a string by \<open>fetch\<close>.\<close>

definition authHeader :: "env \<Rightarrow> (string \<times> string) list" where
  "authHeader E = [(''Authorization'', config_text (OPENPHONE_API_KEY E))]"

section \<open>Translation module\<close>

text \<open>
  An asynchronous function takes the list of the upstream requests issued so far and
  returns its result (\<open>Inl\<close>: the exception it throws) with the extended list.
  \<open>new URLSearchParams(init)\<close> with an object takes \<open>init\<close> as a record of
  strings (URL Standard, \<open>record<USVString, USVString>\<close>): every own enumerable
  property becomes a pair, its value converted with \<open>ToString\<close>, so a property whose
  value is \<open>undefined\<close> is kept, with the text \<open>undefined\<close>. The model keeps the
  name/value pairs, not their percent-encoded text.
\<close>

type_synonym 'a async = "request list \<Rightarrow> (exn + 'a) \<times> request list"

definition URLSearchParams :: "env \<Rightarrow> (string \<times> jsval) list \<Rightarrow> exn + (string \<times> string) list" where
  "URLSearchParams E init =
     sequence_exn (map (\<lambda>(k, v). case ToString E v of Inl e \<Rightarrow> Inl e | Inr s \<Rightarrow> Inr (k, s)) init)"

text \<open>\<open>v.toUpperCase()\<close> and \<open>v?.trim()\<close>: only strings have these methods.\<close>

definition call_toUpperCase :: "env \<Rightarrow> jsval \<Rightarrow> exn + jsval" where
  "call_toUpperCase E v =
     (case v of
        Str s \<Rightarrow> Inr (Str (toUpperCase E s))
      | _ \<Rightarrow> if nullish v then Inl (runtime_error E (ReadOfNullish v ''toUpperCase''))
             else Inl (runtime_error E (NotAFunction v ''toUpperCase'')))"

definition opt_call_trim :: "env \<Rightarrow> jsval \<Rightarrow> exn + jsval" where
  "opt_call_trim E v =
     (case v of
        Str s \<Rightarrow> Inr (Str (trim E s))
      | _ \<Rightarrow> if nullish v then Inr Undefined
             else Inl (runtime_error E (NotAFunction v ''trim'')))"

definition translateWithDeepL :: "env \<Rightarrow> jsval \<Rightarrow> jsval \<Rightarrow> jsval \<Rightarrow> jsval async" where
  "translateWithDeepL E text targetLang sourceLang calls =
     (if \<not> truthy (DEEPL_API_KEY E) then (Inl (Error ''DEEPL_API_KEY not configured''), calls)
      else case call_toUpperCase E targetLang of
        Inl e \<Rightarrow> (Inl e, calls)
      | Inr target_lang \<Rightarrow>
      (case (if sourceLang = Str ''auto'' then Inr Undefined else call_toUpperCase E sourceLang) of
        Inl e \<Rightarrow> (Inl e, calls)
      | Inr source_lang \<Rightarrow>
      (case URLSearchParams E
              [(''text'', text),
               (''target_lang'', target_lang),
               (''source_lang'', source_lang)] of
        Inl e \<Rightarrow> (Inl e, calls)
      | Inr params \<Rightarrow>
      (let rq = \<lparr>req_url = ''https://api-free.deepl.com/v2/translate'',
                 req_query = [],
                 req_method = ''POST'',
                 req_headers =
                   [(''Authorization'', ''DeepL-Auth-Key '' @ config_text (DEEPL_API_KEY E)),
                    (''Content-Type'', ''application/x-www-form-urlencoded'')],
                 req_body = FormBody params\<rparr>
       in case fetch E calls rq of
            Inl e \<Rightarrow> (Inl e, calls @ [rq])
          | Inr response \<Rightarrow>
          (case resp_json response of
            Inl e \<Rightarrow> (Inl e, calls @ [rq])
          | Inr data \<Rightarrow>
          (case get E data ''translations'' of
            Inl e \<Rightarrow> (Inl e, calls @ [rq])
          | Inr translations \<Rightarrow>
              (Inr (or_else (opt_get (opt_at0 translations) ''text'') text), calls @ [rq])))))))"

text \<open>The request of \<open>translateWithLibre\<close>: nothing in its construction can throw.\<close>

definition libre_request :: "env \<Rightarrow> jsval \<Rightarrow> jsval \<Rightarrow> jsval \<Rightarrow> request" where
  "libre_request E text targetLang sourceLang =
     \<lparr>req_url = config_text (LIBRE_URL E) @ ''/translate'',
      req_query = [],
      req_method = ''POST'',
      req_headers =
        [(''Content-Type'', ''application/json'')] @
        (if truthy (LIBRE_API_KEY E)
         then [(''Authorization'', ''Bearer '' @ config_text (LIBRE_API_KEY E))] else []),
      req_body = TextBody (JSON_stringify E (Obj
        [(''q'', text),
         (''source'', if sourceLang = Str ''auto'' then Str ''auto'' else sourceLang),
         (''target'', targetLang)]))\<rparr>"

definition translateWithLibre :: "env \<Rightarrow> jsval \<Rightarrow> jsval \<Rightarrow> jsval \<Rightarrow> jsval async" where
  "translateWithLibre E text targetLang sourceLang calls =
     (let rq = libre_request E text targetLang sourceLang
      in case fetch E calls rq of
           Inl e \<Rightarrow> (Inl e, calls @ [rq])
         | Inr response \<Rightarrow>
         (case resp_json response of
           Inl e \<Rightarrow> (Inl e, calls @ [rq])
         | Inr data \<Rightarrow>
         (case get E data ''translatedText'' of
           Inl e \<Rightarrow> (Inl e, calls @ [rq])
         | Inr translatedText \<Rightarrow> (Inr (or_else translatedText text), calls @ [rq]))))"

definition translateWithGoogle :: "env \<Rightarrow> jsval \<Rightarrow> jsval \<Rightarrow> jsval \<Rightarrow> jsval async" where
  "translateWithGoogle E text targetLang sourceLang calls =
     (Inl (Error ''Google Translate not implemented in this MVP''), calls)"

text \<open>
  The two prompts of \<open>translateWithOpenAI\<close>, with the accented letters of the
  Portuguese texts as code units. A template literal converts its values from left to
  right and throws where a conversion does; in \<open>(prompt || '') + `...`\<close> the template
  is evaluated before the left operand is converted.
\<close>

definition systemPrompt :: "env \<Rightarrow> jsval \<Rightarrow> exn + string" where
  "systemPrompt E targetLang =
     (case ToString E targetLang of
        Inl e \<Rightarrow> Inl e
      | Inr lang \<Rightarrow> Inr (
          ''Voc'' @ [CHR 0xEA] @ '' '' @ [CHR 0xE9] @ '' um tradutor cuidadoso. Traduza para '' @
          lang @
          ''. Preserve significado e tom. N'' @ [CHR 0xE3] @ ''o traduza trechos em blocos de c'' @
          [CHR 0xF3] @ ''digo Markdown. Responda somente com a tradu'' @ [CHR 0xE7, CHR 0xE3] @
          ''o.''))"

definition userPrompt :: "env \<Rightarrow> jsval \<Rightarrow> jsval \<Rightarrow> jsval \<Rightarrow> exn + string" where
  "userPrompt E text targetLang prompt =
     (case ToString E targetLang of
        Inl e \<Rightarrow> Inl e
      | Inr lang \<Rightarrow>
     (case ToString E text of
        Inl e \<Rightarrow> Inl e
      | Inr txt \<Rightarrow>
     (case ToString E (or_else prompt (Str [])) of
        Inl e \<Rightarrow> Inl e
      | Inr p \<Rightarrow> Inr (p @ nl @ nl @ ''Idioma destino: '' @ lang @ nl @ ''Texto:'' @ nl @ txt))))"

definition openai_request :: "env \<Rightarrow> jsval \<Rightarrow> jsval \<Rightarrow> jsval \<Rightarrow> exn + request" where
  "openai_request E text targetLang prompt =
     (case systemPrompt E targetLang of
        Inl e \<Rightarrow> Inl e
      | Inr system \<Rightarrow>
     (case userPrompt E text targetLang prompt of
        Inl e \<Rightarrow> Inl e
      | Inr user \<Rightarrow>
        Inr \<lparr>req_url = ''https://api.openai.com/v1/chat/completions'',
             req_query = [],
             req_method = ''POST'',
             req_headers =
               [(''Authorization'', ''Bearer '' @ config_text (OPENAI_API_KEY E)),
                (''Content-Type'', ''application/json'')],
             req_body = TextBody (JSON_stringify E (Obj
               [(''model'', Str ''gpt-4o-mini''),
                (''temperature'', Num 0),
                (''messages'', Arr
                  [Obj [(''role'', Str ''system''), (''content'', Str system)],
                   Obj [(''role'', Str ''user''), (''content'', Str user)]])]))\<rparr>))"

text \<open>\<open>new Error(message)\<close> converts its argument to a string.\<close>

definition translateWithOpenAI :: "env \<Rightarrow> jsval \<Rightarrow> jsval \<Rightarrow> jsval \<Rightarrow> jsval async" where
  "translateWithOpenAI E text targetLang prompt calls =
     (if \<not> truthy (OPENAI_API_KEY E) then (Inl (Error ''OPENAI_API_KEY not configured''), calls)
      else case openai_request E text targetLang prompt of
        Inl e \<Rightarrow> (Inl e, calls)
      | Inr rq \<Rightarrow>
      (case fetch E calls rq of
         Inl e \<Rightarrow> (Inl e, calls @ [rq])
       | Inr response \<Rightarrow>
       (case resp_json response of
         Inl e \<Rightarrow> (Inl e, calls @ [rq])
       | Inr data \<Rightarrow>
         if \<not> resp_ok response then
           (case ToString E
                   (or_else (opt_get (opt_get data ''error'') ''message'')
                      (Str (''OpenAI error: '' @ NumberToString E (of_nat (resp_status response))))) of
              Inl e \<Rightarrow> (Inl e, calls @ [rq])
            | Inr m \<Rightarrow> (Inl (Error m), calls @ [rq]))
         else
         (case opt_call_trim E
                 (opt_get (opt_get (opt_at0 (opt_get data ''choices'')) ''message'') ''content'') of
           Inl e \<Rightarrow> (Inl e, calls @ [rq])
         | Inr translated \<Rightarrow> (Inr (or_else translated text), calls @ [rq])))))"

text \<open>
  \<open>translateText\<close>. The \<open>switch\<close> inside the \<open>try\<close> block compares with
  \<open>===\<close>; the default values of \<open>sourceLang\<close> and \<open>prompt\<close> apply when the
  argument is \<open>undefined\<close>; the \<open>catch\<close> returns the original text.
\<close>

definition translateText_try :: "env \<Rightarrow> jsval \<Rightarrow> jsval \<Rightarrow> jsval \<Rightarrow> jsval \<Rightarrow> jsval async" where
  "translateText_try E text targetLang sourceLang prompt calls =
     (if TRANSLATE_PROVIDER E = Str ''DEEPL''
        then translateWithDeepL E text targetLang sourceLang calls
      else if TRANSLATE_PROVIDER E = Str ''GOOGLE''
        then translateWithGoogle E text targetLang sourceLang calls
      else if TRANSLATE_PROVIDER E = Str ''OPENAI''
        then translateWithOpenAI E text targetLang prompt calls
      else translateWithLibre E text targetLang sourceLang calls)"

definition default_param :: "jsval \<Rightarrow> jsval \<Rightarrow> jsval" where
  "default_param v d = (if v = Undefined then d else v)"

definition translateText :: "env \<Rightarrow> jsval \<Rightarrow> jsval \<Rightarrow> jsval \<Rightarrow> jsval \<Rightarrow> jsval async" where
  "translateText E text targetLang sourceLang0 prompt0 calls =
     (let sourceLang = default_param sourceLang0 (Str ''auto'');
          prompt = default_param prompt0 (Str [])
      in if \<not> truthy text \<or> \<not> truthy targetLang then (Inr text, calls)
         else case translateText_try E text targetLang sourceLang prompt calls of
                (Inl error, calls') \<Rightarrow> (Inr text, calls')
              | (Inr translated, calls') \<Rightarrow> (Inr translated, calls'))"

text \<open>The same process with another value of the variable \<open>TRANSLATE_PROVIDER\<close>
  (\<open>None\<close>: unset).\<close>

definition with_provider :: "env \<Rightarrow> string option \<Rightarrow> env" where
  "with_provider E v = E\<lparr>process_env := (process_env E)(''TRANSLATE_PROVIDER'' := v)\<rparr>"

section \<open>POST /api/messages\<close>

text \<open>
  A handler returns the response it sends together with the upstream requests issued.
  Destructuring \<open>req.body\<close> throws on \<open>null\<close> and \<open>undefined\<close>; the JSON body
  parser delivers an object or an array. The prompt is a template literal, evaluated
  before the translation function is called.
\<close>

definition strictPrompt :: "env \<Rightarrow> jsval \<Rightarrow> exn + jsval" where
  "strictPrompt E targetLang =
     (case ToString E targetLang of
        Inl e \<Rightarrow> Inl e
      | Inr lang \<Rightarrow> Inr (Str (
          ''Traduza para '' @ lang @
          '', preserve sentido e tom, n'' @ [CHR 0xE3] @ ''o traduza blocos de c'' @ [CHR 0xF3] @
          ''digo Markdown, responda somente com a tradu'' @ [CHR 0xE7, CHR 0xE3] @ ''o.'')))"

text \<open>The body of the inner \<open>try\<close> block of the strict path, and the response of its
  \<open>catch\<close>.\<close>

definition strict_translation_try :: "env \<Rightarrow> jsval \<Rightarrow> jsval \<Rightarrow> jsval async" where
  "strict_translation_try E text targetLang calls =
     (case strictPrompt E targetLang of
        Inl e \<Rightarrow> (Inl e, calls)
      | Inr prompt \<Rightarrow> translateWithOpenAI E text targetLang prompt calls)"

definition translation_failed :: "exn \<Rightarrow> http_response" where
  "translation_failed error =
     \<lparr>res_status = 500,
      res_json = Obj [(''error'', Str (''Falha na tradu'' @ [CHR 0xE7, CHR 0xE3] @ ''o'')),
                      (''provider'', Str ''openai''),
                      (''details'', Str (message error))]\<rparr>"

text \<open>The upstream send request for a payload with the given content.\<close>

definition send_request :: "env \<Rightarrow> jsval \<Rightarrow> jsval \<Rightarrow> jsval \<Rightarrow> jsval \<Rightarrow> request" where
  "send_request E translatedText fromNumber to userId =
     \<lparr>req_url = config_text (OPENPHONE_API E) @ ''/messages'',
      req_query = [],
      req_method = ''POST'',
      req_headers = authHeader E @ [(''Content-Type'', ''application/json'')],
      req_body = TextBody (JSON_stringify E (Obj
        ([(''content'', translatedText),
          (''from'', fromNumber),
          (''to'', if isArray to then to else Arr [to])] @
         (if truthy (or_else (OPENPHONE_USER_ID E) userId)
          then [(''userId'', or_else userId (OPENPHONE_USER_ID E))] else []))))\<rparr>"

text \<open>The end of the handler: the upstream call, whose status and body are passed on.\<close>

definition send_message :: "env \<Rightarrow> jsval \<Rightarrow> jsval \<Rightarrow> jsval \<Rightarrow> jsval \<Rightarrow> http_response async" where
  "send_message E translatedText fromNumber to userId calls =
     (let rq = send_request E translatedText fromNumber to userId
      in case fetch E calls rq of
           Inl e \<Rightarrow> (Inl e, calls @ [rq])
         | Inr response \<Rightarrow>
         (case resp_json response of
           Inl e \<Rightarrow> (Inl e, calls @ [rq])
         | Inr data \<Rightarrow>
             (Inr \<lparr>res_status = resp_status response, res_json = data\<rparr>, calls @ [rq])))"

text \<open>The body of the handler's \<open>try\<close> block; \<open>Inl\<close> is an exception that reaches
  the handler's \<open>catch\<close>.\<close>

definition post_api_messages_try :: "env \<Rightarrow> jsval \<Rightarrow> http_response async" where
  "post_api_messages_try E body calls =
     (if nullish body then (Inl (runtime_error E (ReadOfNullish body ''text'')), calls)
      else
      (let text = own_prop body ''text'';
           to = own_prop body ''to'';
           from = own_prop body ''from'';
           targetLang = own_prop body ''targetLang'';
           sourceLang = own_prop body ''sourceLang'';
           userId = own_prop body ''userId'';
           strict = own_prop body ''strict''
       in if \<not> truthy text \<or> \<not> truthy to then
            (Inr \<lparr>res_status = 400,
                  res_json = Obj [(''error'', Str (''text e to s'' @ [CHR 0xE3] @ ''o obrigat'' @
                                                   [CHR 0xF3] @ ''rios''))]\<rparr>, calls)
          else
          (let fromNumber = or_else from (OPENPHONE_FROM E)
           in if \<not> truthy fromNumber then
                (Inr \<lparr>res_status = 400,
                      res_json = Obj [(''error'',
                        Str ''from ausente. Configure OPENPHONE_FROM ou envie no corpo.'')]\<rparr>, calls)
              else
              (case (if truthy targetLang then
                       if truthy strict then
                         (case strict_translation_try E text targetLang calls of
                            (Inl error, calls') \<Rightarrow> (Inr (Inl (translation_failed error)), calls')
                          | (Inr translated, calls') \<Rightarrow> (Inr (Inr translated), calls'))
                       else
                         (case strictPrompt E targetLang of
                            Inl e \<Rightarrow> (Inl e, calls)
                          | Inr prompt \<Rightarrow>
                            (case translateText E text targetLang sourceLang prompt calls of
                               (Inl e, calls') \<Rightarrow> (Inl e, calls')
                             | (Inr translated, calls') \<Rightarrow> (Inr (Inr translated), calls')))
                     else (Inr (Inr text), calls)) of
                 (Inl e, calls') \<Rightarrow> (Inl e, calls')
               | (Inr (Inl early), calls') \<Rightarrow> (Inr early, calls')
               | (Inr (Inr translatedText), calls') \<Rightarrow>
                   send_message E translatedText fromNumber to userId calls'))))"

definition post_api_messages :: "env \<Rightarrow> jsval \<Rightarrow> request list \<Rightarrow> http_response \<times> request list" where
  "post_api_messages E body calls =
     (case post_api_messages_try E body calls of
        (Inr res, calls') \<Rightarrow> (res, calls')
      | (Inl error, calls') \<Rightarrow>
          (\<lparr>res_status = 500, res_json = Obj [(''error'', Str ''Falha ao enviar mensagem'')]\<rparr>,
           calls'))"

section \<open>POST /webhooks/openphone\<close>

text \<open>
  \<open>event?.type?.includes('message')\<close>: \<open>undefined\<close> when the body or its \<open>type\<close>
  is \<open>null\<close> or \<open>undefined\<close>; the substring test on a string; the membership test
  on an array; a TypeError on a number, a boolean or an object, none of which has a
  callable \<open>includes\<close>.
\<close>

definition type_includes_message :: "env \<Rightarrow> jsval \<Rightarrow> exn + jsval" where
  "type_includes_message E event =
     (let type = opt_get event ''type''
      in case type of
           Str s \<Rightarrow> Inr (Bool (str_includes s ''message''))
         | Arr xs \<Rightarrow> Inr (Bool (Str ''message'' \<in> set xs))
         | _ \<Rightarrow> if nullish type then Inr Undefined
                else Inl (runtime_error E (NotAFunction type ''includes'')))"

definition post_webhooks_openphone_try :: "env \<Rightarrow> jsval \<Rightarrow> sse_world \<Rightarrow> exn + http_response \<times> sse_world" where
  "post_webhooks_openphone_try E event w =
     (case type_includes_message E event of
        Inl e \<Rightarrow> Inl e
      | Inr is_message \<Rightarrow>
        (case (if truthy is_message then broadcast E ''openphone'' event w else Inr w) of
           Inl e \<Rightarrow> Inl e
         | Inr w' \<Rightarrow> Inr (\<lparr>res_status = 200, res_json = Obj [(''ok'', Bool True)]\<rparr>, w')))"

definition post_webhooks_openphone :: "env \<Rightarrow> jsval \<Rightarrow> sse_world \<Rightarrow> http_response \<times> sse_world" where
  "post_webhooks_openphone E event w =
     (case post_webhooks_openphone_try E event w of
        Inr r \<Rightarrow> r
      | Inl error \<Rightarrow> (\<lparr>res_status = 500, res_json = Obj [(''ok'', Bool False)]\<rparr>, w))"

section \<open>GET /api/conversations\<close>

text \<open>Assigning a property of an object: an existing property keeps its place, a new
  one is added at the end; assigning to another kind of value leaves what the response
  will serialize unchanged.\<close>

fun assign :: "(string \<times> jsval) list \<Rightarrow> string \<Rightarrow> jsval \<Rightarrow> (string \<times> jsval) list" where
  "assign [] k v = [(k, v)]"
| "assign ((k', v') # fs) k v = (if k' = k then (k, v) # fs else (k', v') # assign fs k v)"

fun set_prop :: "jsval \<Rightarrow> string \<Rightarrow> jsval \<Rightarrow> jsval" where
  "set_prop (Obj fs) k v = Obj (assign fs k v)"
| "set_prop x k v = x"

text \<open>The callback of the filter,
  \<open>c => Array.isArray(c.participants) && c.participants.length === 1\<close>,
  and \<open>Array.prototype.filter\<close> with a callback that may throw.\<close>

definition is_solo :: "env \<Rightarrow> jsval \<Rightarrow> exn + bool" where
  "is_solo E c =
     (case get E c ''participants'' of
        Inl e \<Rightarrow> Inl e
      | Inr participants \<Rightarrow>
          Inr (case participants of Arr ps \<Rightarrow> int (length ps) = 1 | _ \<Rightarrow> False))"

text \<open>A one-to-one conversation, in the words of the specification: the
  \<open>participants\<close> field is an array of length 1.\<close>

definition single_participant :: "jsval \<Rightarrow> bool" where
  "single_participant c = (case own_prop c ''participants'' of Arr [p] \<Rightarrow> True | _ \<Rightarrow> False)"

fun filter_exn :: "('a \<Rightarrow> exn + bool) \<Rightarrow> 'a list \<Rightarrow> exn + 'a list" where
  "filter_exn p [] = Inr []"
| "filter_exn p (x # xs) =
     (case p x of
        Inl e \<Rightarrow> Inl e
      | Inr b \<Rightarrow>
        (case filter_exn p xs of
           Inl e \<Rightarrow> Inl e
         | Inr ys \<Rightarrow> Inr (if b then x # ys else ys)))"

text \<open>The console line that reports the filter: the number of discarded entries and
  the number of entries that remain. The other console lines are not modelled.\<close>

datatype log_line = Discarded int int

text \<open>\<open>messagesData.data.length > 0\<close> for a truthy \<open>messagesData.data\<close>.\<close>

definition length_gt_zero :: "env \<Rightarrow> jsval \<Rightarrow> exn + bool" where
  "length_gt_zero E v =
     (case v of
        Arr xs \<Rightarrow> Inr (int (length xs) > 0)
      | Str s \<Rightarrow> Inr (int (length s) > 0)
      | Obj fs \<Rightarrow> gt_zero E (own_prop (Obj fs) ''length'')
      | _ \<Rightarrow> Inr False)"

text \<open>The request for the last message: the record given to \<open>URLSearchParams\<close>, then
  one \<open>participants\<close> parameter for each participant, each converted to a string.\<close>

definition messages_request :: "env \<Rightarrow> jsval \<Rightarrow> exn + request" where
  "messages_request E conversation =
     (case get E conversation ''phoneNumberId'' of
        Inl e \<Rightarrow> Inl e
      | Inr phoneNumberId \<Rightarrow>
     (case URLSearchParams E [(''phoneNumberId'', phoneNumberId), (''maxResults'', Str ''1'')] of
        Inl e \<Rightarrow> Inl e
      | Inr queryParams \<Rightarrow>
     (case own_prop conversation ''participants'' of
        Arr ps \<Rightarrow>
          (case URLSearchParams E (map (\<lambda>participant. (''participants'', participant)) ps) of
             Inl e \<Rightarrow> Inl e
           | Inr appended \<Rightarrow>
               Inr \<lparr>req_url = config_text (OPENPHONE_API E) @ ''/messages'',
                    req_query = queryParams @ appended,
                    req_method = ''GET'',
                    req_headers = authHeader E,
                    req_body = NoBody\<rparr>)
      | participants \<Rightarrow>
          if nullish participants
          then Inl (runtime_error E (ReadOfNullish participants ''forEach''))
          else Inl (runtime_error E (NotAFunction participants ''forEach'')))))"

text \<open>
  The body of the inner \<open>try\<close> block: it returns the conversation, with its last
  message attached when there is one. The console lines of the loop print
  \<open>conversation.id\<close> in a template literal, which converts it to a string: the first
  of them comes before the \<open>fetch\<close>, and the later ones convert the same value.
\<close>

definition last_message_try :: "env \<Rightarrow> jsval \<Rightarrow> jsval async" where
  "last_message_try E conversation calls =
     (case messages_request E conversation of
        Inl e \<Rightarrow> (Inl e, calls)
      | Inr rq \<Rightarrow>
     (case ToString E (own_prop conversation ''id'') of
        Inl e \<Rightarrow> (Inl e, calls)
      | Inr id_text \<Rightarrow>
        (case fetch E calls rq of
           Inl e \<Rightarrow> (Inl e, calls @ [rq])
         | Inr messagesResponse \<Rightarrow>
           if resp_ok messagesResponse then
             (case resp_json messagesResponse of
                Inl e \<Rightarrow> (Inl e, calls @ [rq])
              | Inr messagesData \<Rightarrow>
                (case get E messagesData ''data'' of
                   Inl e \<Rightarrow> (Inl e, calls @ [rq])
                 | Inr d \<Rightarrow>
                     if truthy d then
                       (case length_gt_zero E d of
                          Inl e \<Rightarrow> (Inl e, calls @ [rq])
                        | Inr positive \<Rightarrow>
                            if positive
                            then (Inr (set_prop conversation ''lastMessage'' (opt_at0 d)),
                                  calls @ [rq])
                            else (Inr conversation, calls @ [rq]))
                     else (Inr conversation, calls @ [rq])))
           else (Inr conversation, calls @ [rq]))))"

text \<open>
  The inner \<open>try\<close> with its \<open>catch\<close>. The \<open>catch\<close> prints \<open>conversation.id\<close> in
  a template literal too: when that conversion throws, the exception leaves the loop
  (\<open>Inl\<close>) and reaches the \<open>catch\<close> of the handler.
\<close>

definition last_message :: "env \<Rightarrow> jsval \<Rightarrow> jsval async" where
  "last_message E conversation calls =
     (case last_message_try E conversation calls of
        (Inr conversation', calls') \<Rightarrow> (Inr conversation', calls')
      | (Inl error, calls') \<Rightarrow>
          (case get E conversation ''id'' of
             Inl e \<Rightarrow> (Inl e, calls')
           | Inr ident \<Rightarrow>
               (case ToString E ident of
                  Inl e \<Rightarrow> (Inl e, calls')
                | Inr id_text \<Rightarrow> (Inr conversation, calls'))))"

fun last_messages :: "env \<Rightarrow> jsval list \<Rightarrow> (jsval list) async" where
  "last_messages E [] calls = (Inr [], calls)"
| "last_messages E (conversation # rest) calls =
     (case last_message E conversation calls of
        (Inl e, calls') \<Rightarrow> (Inl e, calls')
      | (Inr conversation', calls') \<Rightarrow>
          (case last_messages E rest calls' of
             (Inl e, calls'') \<Rightarrow> (Inl e, calls'')
           | (Inr rest', calls'') \<Rightarrow> (Inr (conversation' # rest'), calls'')))"

definition conversations_request :: "env \<Rightarrow> jsval \<Rightarrow> exn + request" where
  "conversations_request E query =
     (if nullish query then Inl (runtime_error E (ReadOfNullish query ''pageToken''))
      else
      (let pageToken = own_prop query ''pageToken'';
           maxResults = (if own_prop query ''maxResults'' = Undefined then Num 40
                         else own_prop query ''maxResults'')
       in case call_toString E maxResults of
            Inl e \<Rightarrow> Inl e
          | Inr maxText \<Rightarrow>
          (case (if truthy pageToken
                 then URLSearchParams E [(''pageToken'', pageToken)] else Inr []) of
            Inl e \<Rightarrow> Inl e
          | Inr appended \<Rightarrow>
              Inr \<lparr>req_url = config_text (OPENPHONE_API E) @ ''/conversations'',
                   req_query = [(''maxResults'', maxText)] @ appended,
                   req_method = ''GET'',
                   req_headers = authHeader E,
                   req_body = NoBody\<rparr>)))"

text \<open>The filter step: the page with \<open>data.data\<close> replaced, and the console line.\<close>

definition discard_groups :: "env \<Rightarrow> jsval \<Rightarrow> exn + jsval \<times> log_line list" where
  "discard_groups E data =
     (if truthy data \<and> isArray (own_prop data ''data'') then
        (case own_prop data ''data'' of
           Arr convs \<Rightarrow>
             (let before = int (length convs)
              in case filter_exn (is_solo E) convs of
                   Inl e \<Rightarrow> Inl e
                 | Inr kept \<Rightarrow>
                     (let after = int (length kept);
                          discarded = before - after
                      in Inr (set_prop data ''data'' (Arr kept), [Discarded discarded after])))
         | _ \<Rightarrow> Inr (data, []))
      else Inr (data, []))"

text \<open>The body of the handler's \<open>try\<close> block, with the console lines printed and the
  upstream requests issued, also when it throws.\<close>

definition get_api_conversations_try ::
  "env \<Rightarrow> jsval \<Rightarrow> request list \<Rightarrow> (exn + http_response) \<times> log_line list \<times> request list" where
  "get_api_conversations_try E query calls =
     (case conversations_request E query of
        Inl e \<Rightarrow> (Inl e, [], calls)
      | Inr rq \<Rightarrow>
        (case fetch E calls rq of
           Inl e \<Rightarrow> (Inl e, [], calls @ [rq])
         | Inr response \<Rightarrow>
           (case resp_json response of
              Inl e \<Rightarrow> (Inl e, [], calls @ [rq])
            | Inr data0 \<Rightarrow>
              (case discard_groups E data0 of
                 Inl e \<Rightarrow> (Inl e, [], calls @ [rq])
               | Inr (data, logs) \<Rightarrow>
                 (case get E data ''data'' of
                    Inl e \<Rightarrow> (Inl e, logs, calls @ [rq])
                  | Inr d \<Rightarrow>
                    (case d of
                       Arr convs \<Rightarrow>
                         (case last_messages E convs (calls @ [rq]) of
                            (Inl e, calls') \<Rightarrow> (Inl e, logs, calls')
                          | (Inr convs', calls') \<Rightarrow>
                              (Inr \<lparr>res_status = resp_status response,
                                    res_json = set_prop data ''data'' (Arr convs')\<rparr>,
                               logs, calls'))
                     | _ \<Rightarrow>
                         (Inr \<lparr>res_status = resp_status response, res_json = data\<rparr>,
                          logs, calls @ [rq])))))))"

definition get_api_conversations ::
  "env \<Rightarrow> jsval \<Rightarrow> request list \<Rightarrow> http_response \<times> log_line list \<times> request list" where
  "get_api_conversations E query calls =
     (case get_api_conversations_try E query calls of
        (Inr res, logs, calls') \<Rightarrow> (res, logs, calls')
      | (Inl error, logs, calls') \<Rightarrow>
          (\<lparr>res_status = 500, res_json = Obj [(''error'', Str ''Falha ao carregar conversas'')]\<rparr>,
           logs, calls'))"

section \<open>A concrete environment\<close>

text \<open>
  An instance of the parameters, used to run the definitions on concrete inputs:
  the messages of the runtime's exceptions, ASCII upper-casing, trimming of spaces, and
  simple stand-ins for the other built-ins. The channel of client 2 is broken: a write
  to it throws.
\<close>

fun demo_error :: "fault \<Rightarrow> exn" where
  "demo_error (ReadOfNullish v k) =
     TypeError (''Cannot read properties of '' @ (if v = Null then ''null'' else ''undefined'') @
                '' (reading '' @ k @ '')'')"
| "demo_error (NotAFunction v k) = TypeError (k @ '' is not a function'')"
| "demo_error (NotPrimitive v) = TypeError ''Cannot convert object to primitive value''"

definition ascii_upper :: "string \<Rightarrow> string" where
  "ascii_upper s =
     map (\<lambda>c. case map_of (zip ''abcdefghijklmnopqrstuvwxyz'' ''ABCDEFGHIJKLMNOPQRSTUVWXYZ'') c of
                 Some u \<Rightarrow> u | None \<Rightarrow> c) s"

definition trim_spaces :: "string \<Rightarrow> string" where
  "trim_spaces s =
     rev (dropWhile (\<lambda>c. c = CHR '' '') (rev (dropWhile (\<lambda>c. c = CHR '' '') s)))"

definition demo_env :: "(string \<times> string) list \<Rightarrow> (request list \<Rightarrow> request \<Rightarrow> exn + response) \<Rightarrow> env" where
  "demo_env vars oracle =
     \<lparr>process_env = map_of vars,
      fetch = oracle,
      write_outcome = (\<lambda>c data. if c = 2 then Some (Error ''write after end'') else None),
      runtime_error = demo_error,
      NumberToString = (\<lambda>r. if r = 40 then ''40'' else if r = 500 then ''500'' else ''0''),
      JSON_stringify = (\<lambda>v. ''{}''),
      toUpperCase = ascii_upper,
      trim = trim_spaces,
      gt_zero = (\<lambda>v. case v of Num r \<Rightarrow> Inr (r > 0) | _ \<Rightarrow> Inr False)\<rparr>"

definition offline :: "request list \<Rightarrow> request \<Rightarrow> exn + response" where
  "offline calls rq = Inl (TypeError ''fetch failed'')"

text \<open>An upstream whose answers are not JSON: \<open>response.json()\<close> throws.\<close>

definition garbled :: "request list \<Rightarrow> request \<Rightarrow> exn + response" where
  "garbled calls rq =
     Inr \<lparr>resp_status = 200, resp_json = Inl (SyntaxError ''Unexpected token < in JSON'')\<rparr>"

text \<open>An upstream that answers: a page of three conversations (the second one a
  group), a last message for the first conversation asked and a network error for the
  next, an accepted send, and an overloaded translation service.\<close>

definition demo_page :: jsval where
  "demo_page = Obj
     [(''data'', Arr
        [Obj [(''id'', Str ''CN1''), (''phoneNumberId'', Str ''PN1''),
              (''participants'', Arr [Str ''+15550001''])],
         Obj [(''id'', Str ''CN2''), (''phoneNumberId'', Str ''PN1''),
              (''participants'', Arr [Str ''+15550002'', Str ''+15550003''])],
         Obj [(''id'', Str ''CN3''), (''phoneNumberId'', Str ''PN1''),
              (''participants'', Arr [Str ''+15550004''])]]),
      (''nextPageToken'', Null)]"

definition demo_upstream :: "request list \<Rightarrow> request \<Rightarrow> exn + response" where
  "demo_upstream calls rq =
     (if req_url rq = ''https://api.openphone.com/v1/conversations'' then
        Inr \<lparr>resp_status = 200, resp_json = Inr demo_page\<rparr>
      else if req_url rq = ''https://api.openphone.com/v1/messages'' \<and> req_method rq = ''GET'' then
        (if length calls = 1
         then Inr \<lparr>resp_status = 200,
                   resp_json = Inr (Obj [(''data'', Arr [Obj [(''text'', Str ''ola'')]])])\<rparr>
         else Inl (TypeError ''fetch failed''))
      else if req_url rq = ''https://api.openphone.com/v1/messages'' then
        Inr \<lparr>resp_status = 202, resp_json = Inr (Obj [(''id'', Str ''AC1'')])\<rparr>
      else if req_url rq = ''https://api.openai.com/v1/chat/completions'' then
        Inr \<lparr>resp_status = 500,
             resp_json = Inr (Obj [(''error'', Obj [(''message'', Str ''overloaded'')])])\<rparr>
      else Inl (TypeError ''fetch failed''))"

text \<open>An upstream whose translation services work: the chat completion and the
  LibreTranslate answer both carry a translation; a send is accepted.\<close>

definition translating :: "request list \<Rightarrow> request \<Rightarrow> exn + response" where
  "translating calls rq =
     (if req_url rq = ''https://api.openai.com/v1/chat/completions'' then
        Inr \<lparr>resp_status = 200,
             resp_json = Inr (Obj [(''choices'', Arr
               [Obj [(''message'', Obj [(''role'', Str ''assistant''),
                                        (''content'', Str '' ola mundo '')])]])])\<rparr>
      else if req_url rq = ''https://libretranslate.com/translate'' then
        Inr \<lparr>resp_status = 200, resp_json = Inr (Obj [(''translatedText'', Str ''ola'')])\<rparr>
      else if req_url rq = ''https://api.openphone.com/v1/messages'' then
        Inr \<lparr>resp_status = 202, resp_json = Inr (Obj [(''id'', Str ''AC1'')])\<rparr>
      else Inl (TypeError ''fetch failed''))"

text \<open>An upstream whose page of conversations has a \<open>null\<close> entry.\<close>

definition null_entry_upstream :: "request list \<Rightarrow> request \<Rightarrow> exn + response" where
  "null_entry_upstream calls rq =
     Inr \<lparr>resp_status = 200,
          resp_json = Inr (Obj [(''data'', Arr
            [Obj [(''id'', Str ''CN1''), (''phoneNumberId'', Str ''PN1''),
                  (''participants'', Arr [Str ''+15550001''])],
             Null])])\<rparr>"

section \<open>Broadcast: fault isolation\<close>

lemma for_of_try_write:
  assumes accepted: "\<And>c w. write_outcome E c data = None \<Longrightarrow>
                       f c w = Inr (w\<lparr>wire := wire w @ [(c, data)]\<rparr>)"
    and thrown: "\<And>c w. write_outcome E c data \<noteq> None \<Longrightarrow> f c w = Inr (sse_delete c w)"
  shows "for_of cs f w =
   Inr (w\<lparr>sseClients :=
            filter (\<lambda>c. \<not> (c \<in> set cs \<and> write_outcome E c data \<noteq> None)) (sseClients w),
          wire := wire w @ map (\<lambda>c. (c, data)) (filter (\<lambda>c. write_outcome E c data = None) cs)\<rparr>)"
proof (induction cs arbitrary: w)
  case Nil
  show ?case by simp
next
  case (Cons c cs)
  show ?case
  proof (cases "write_outcome E c data = None")
    case True
    have "filter (\<lambda>x. \<not> (x \<in> set cs \<and> write_outcome E x data \<noteq> None)) (sseClients w)
        = filter (\<lambda>x. \<not> (x \<in> set (c # cs) \<and> write_outcome E x data \<noteq> None)) (sseClients w)"
      using True by (intro filter_cong) auto
    then show ?thesis
      using True by (simp add: accepted Cons.IH)
  next
    case False
    have "filter (\<lambda>x. \<not> (x \<in> set cs \<and> write_outcome E x data \<noteq> None))
            (removeAll c (sseClients w))
        = filter (\<lambda>x. \<not> (x \<in> set (c # cs) \<and> write_outcome E x data \<noteq> None)) (sseClients w)"
      using False unfolding removeAll_filter_not_eq filter_filter
      by (intro filter_cong) auto
    then show ?thesis
      using False by (simp add: thrown Cons.IH sse_delete_def)
  qed
qed

lemma broadcast_result:
  "broadcast E type payload w =
     Inr (w\<lparr>sseClients :=
              filter (\<lambda>c. write_outcome E c (sse_data E type payload) = None) (sseClients w),
            wire := wire w @ map (\<lambda>c. (c, sse_data E type payload))
              (filter (\<lambda>c. write_outcome E c (sse_data E type payload) = None) (sseClients w))\<rparr>)"
proof -
  let ?data = "sse_data E type payload"
  let ?f = "\<lambda>client w. case client_write E client ?data w of
                          Inr w' \<Rightarrow> Inr w'
                        | Inl error \<Rightarrow> Inr (sse_delete client w)"
  have eq: "filter (\<lambda>c. \<not> (c \<in> set (sseClients w) \<and> write_outcome E c ?data \<noteq> None)) (sseClients w)
      = filter (\<lambda>c. write_outcome E c ?data = None) (sseClients w)"
    by (intro filter_cong) auto
  have 1: "?f c v = Inr (v\<lparr>wire := wire v @ [(c, ?data)]\<rparr>)"
    if "write_outcome E c ?data = None" for c v
    using that by (simp add: client_write_def)
  have 2: "?f c v = Inr (sse_delete c v)" if "write_outcome E c ?data \<noteq> None" for c v
    using that by (auto simp add: client_write_def)
  have "broadcast E type payload w = for_of (sseClients w) ?f w"
    by (simp add: broadcast_def Let_def)
  also have "\<dots> = Inr (w\<lparr>sseClients :=
        filter (\<lambda>c. \<not> (c \<in> set (sseClients w) \<and> write_outcome E c ?data \<noteq> None)) (sseClients w),
      wire := wire w @ map (\<lambda>c. (c, ?data))
        (filter (\<lambda>c. write_outcome E c ?data = None) (sseClients w))\<rparr>)"
    by (rule for_of_try_write [where E = E and data = ?data, OF 1 2])
  finally show ?thesis
    unfolding eq .
qed

text \<open>
  Claim C1. For every registry and every event, \<open>broadcast\<close> returns normally (it is
  \<open>Inr\<close>: no exception reaches the caller). The serialized event is appended to the
  channels of exactly the registered clients whose write does not throw, in registry
  order, and the registry afterwards holds exactly those clients: every registered
  client whose write succeeds has received the event and is still registered, also when
  the write to a client before it has thrown; every client whose write throws is removed.
\<close>

theorem broadcast_fault_isolation:
  "\<exists>w'. broadcast E type payload w = Inr w' \<and>
     sseClients w' =
       filter (\<lambda>c. write_outcome E c (sse_data E type payload) = None) (sseClients w) \<and>
     wire w' = wire w @ map (\<lambda>c. (c, sse_data E type payload))
       (filter (\<lambda>c. write_outcome E c (sse_data E type payload) = None) (sseClients w)) \<and>
     (\<forall>c \<in> set (sseClients w).
        if write_outcome E c (sse_data E type payload) = None
        then (c, sse_data E type payload) \<in> set (wire w') \<and> c \<in> set (sseClients w')
        else c \<notin> set (sseClients w'))"
proof -
  let ?data = "sse_data E type payload"
  let ?served = "filter (\<lambda>c. write_outcome E c ?data = None) (sseClients w)"
  let ?w' = "w\<lparr>sseClients := ?served, wire := wire w @ map (\<lambda>c. (c, ?data)) ?served\<rparr>"
  have run: "broadcast E type payload w = Inr ?w'"
    by (rule broadcast_result)
  have registry: "sseClients ?w' = ?served" and deliveries: "wire ?w' = wire w @ map (\<lambda>c. (c, ?data)) ?served"
    by simp_all
  have each: "if write_outcome E c ?data = None
              then (c, ?data) \<in> set (wire ?w') \<and> c \<in> set (sseClients ?w')
              else c \<notin> set (sseClients ?w')"
    if "c \<in> set (sseClients w)" for c
  proof (cases "write_outcome E c ?data = None")
    case True
    with that have "c \<in> set ?served" by simp
    then have "(c, ?data) \<in> set (map (\<lambda>c. (c, ?data)) ?served)"
      unfolding set_map by (rule imageI)
    with True \<open>c \<in> set ?served\<close> show ?thesis by simp
  next
    case False
    then show ?thesis by auto
  qed
  from run registry deliveries each show ?thesis by blast
qed

theorem broadcast_fault_isolation_witness:
  "broadcast (demo_env [] offline) ''openphone'' (Obj []) \<lparr>sseClients = [1, 2, 3], wire = []\<rparr> =
     Inr \<lparr>sseClients = [1, 3],
          wire = [(1, ''event: openphone'' @ nl @ ''data: {}'' @ nl @ nl),
                  (3, ''event: openphone'' @ nl @ ''data: {}'' @ nl @ nl)]\<rparr>"
  using broadcast_fault_isolation
    [of "demo_env [] offline" "''openphone''" "Obj []" "\<lparr>sseClients = [1, 2, 3], wire = []\<rparr>"]
  by (auto simp add: demo_env_def sse_data_def)

section \<open>Evaluating the concrete environment\<close>

lemmas config_defs = OPENPHONE_API_def OPENPHONE_API_KEY_def OPENPHONE_FROM_def
  OPENPHONE_USER_ID_def TRANSLATE_PROVIDER_def DEEPL_API_KEY_def LIBRE_URL_def
  LIBRE_API_KEY_def OPENAI_API_KEY_def env_val_def or_else_def

lemma config_values:
  "env_val E name = Undefined \<or> (\<exists>s. env_val E name = Str s)"
  "\<exists>s. or_else (env_val E name) (Str (c # cs)) = Str s"
  by (auto simp: env_val_def or_else_def split: option.splits)

lemma config_text_ToString:
  "v = Undefined \<or> (\<exists>s. v = Str s) \<Longrightarrow> ToString E v = Inr (config_text v)"
  by auto

lemma demo_env_sel:
  "process_env (demo_env vars oracle) = map_of vars"
  "fetch (demo_env vars oracle) = oracle"
  "write_outcome (demo_env vars oracle) c data = (if c = 2 then Some (Error ''write after end'') else None)"
  "runtime_error (demo_env vars oracle) = demo_error"
  "NumberToString (demo_env vars oracle) r = (if r = 40 then ''40'' else if r = 500 then ''500'' else ''0'')"
  "JSON_stringify (demo_env vars oracle) v = ''{}''"
  "toUpperCase (demo_env vars oracle) = ascii_upper"
  "trim (demo_env vars oracle) = trim_spaces"
  "gt_zero (demo_env vars oracle) v = (case v of Num r \<Rightarrow> Inr (r > 0) | _ \<Rightarrow> Inr False)"
  by (simp_all add: demo_env_def)

lemmas demo_defs = demo_env_sel offline_def garbled_def demo_upstream_def demo_page_def
  translating_def null_entry_upstream_def ascii_upper_def trim_spaces_def

lemmas request_defs = libre_request_def openai_request_def systemPrompt_def userPrompt_def
  strictPrompt_def URLSearchParams_def

section \<open>Translation: the fallback of \<open>translateText\<close>\<close>

text \<open>
  Claim C2. For every input and every behaviour of the back-end (every \<open>fetch\<close>
  oracle, every configuration), \<open>translateText\<close> returns a value and never throws;
  and whenever the dispatched back-end throws, whatever the exception, the value
  returned is the original text.
\<close>

theorem translateText_never_throws:
  "(\<exists>r calls'. translateText E text targetLang sourceLang prompt calls = (Inr r, calls')) \<and>
   (truthy text \<and> truthy targetLang \<and>
    translateText_try E text targetLang (default_param sourceLang (Str ''auto''))
      (default_param prompt (Str [])) calls = (Inl e, calls')
    \<longrightarrow> translateText E text targetLang sourceLang prompt calls = (Inr text, calls'))"
  by (auto simp: translateText_def Let_def split: prod.splits sum.splits)

text \<open>A network error, a missing credential, a non-2xx answer and an answer that is
  not JSON: each time the original text comes back.\<close>

theorem translateText_never_throws_witness:
  "translateText (demo_env [] offline) (Str ''hello'') (Str ''pt'') Undefined Undefined [] =
     (Inr (Str ''hello''),
      [\<lparr>req_url = ''https://libretranslate.com/translate'', req_query = [], req_method = ''POST'',
        req_headers = [(''Content-Type'', ''application/json'')], req_body = TextBody ''{}''\<rparr>]) \<and>
   translateText (demo_env [(''TRANSLATE_PROVIDER'', ''DEEPL'')] offline)
       (Str ''hello'') (Str ''pt'') Undefined Undefined [] = (Inr (Str ''hello''), []) \<and>
   fst (translateText
          (demo_env [(''TRANSLATE_PROVIDER'', ''OPENAI''), (''OPENAI_API_KEY'', ''sk'')] demo_upstream)
          (Str ''hello'') (Str ''pt'') Undefined Undefined []) = Inr (Str ''hello'') \<and>
   translateText (demo_env [] garbled) (Str ''hello'') (Str ''pt'') Undefined Undefined [] =
     (Inr (Str ''hello''),
      [\<lparr>req_url = ''https://libretranslate.com/translate'', req_query = [], req_method = ''POST'',
        req_headers = [(''Content-Type'', ''application/json'')], req_body = TextBody ''{}''\<rparr>])"
proof -
  let ?rq = "\<lparr>req_url = ''https://libretranslate.com/translate'', req_query = [], req_method = ''POST'',
        req_headers = [(''Content-Type'', ''application/json'')], req_body = TextBody ''{}''\<rparr>"
  let ?E1 = "demo_env [] offline"
  let ?E2 = "demo_env [(''TRANSLATE_PROVIDER'', ''DEEPL'')] offline"
  let ?E3 = "demo_env [(''TRANSLATE_PROVIDER'', ''OPENAI''), (''OPENAI_API_KEY'', ''sk'')] demo_upstream"
  let ?E4 = "demo_env [] garbled"
  have 1: "translateText_try ?E1 (Str ''hello'') (Str ''pt'') (Str ''auto'') (Str []) [] =
             (Inl (TypeError ''fetch failed''), [?rq])"
    by (simp add: translateText_try_def translateWithLibre_def request_defs Let_def config_defs
        demo_defs)
  have 2: "translateText_try ?E2 (Str ''hello'') (Str ''pt'') (Str ''auto'') (Str []) [] =
             (Inl (Error ''DEEPL_API_KEY not configured''), [])"
    by (simp add: translateText_try_def translateWithDeepL_def config_defs demo_defs)
  have 3: "fst (translateText_try ?E3 (Str ''hello'') (Str ''pt'') (Str ''auto'') (Str []) []) =
             Inl (Error ''overloaded'')"
    by (simp add: translateText_try_def translateWithOpenAI_def request_defs Let_def resp_ok_def
        opt_get_def nullish_def config_defs demo_defs)
  have 4: "translateText_try ?E4 (Str ''hello'') (Str ''pt'') (Str ''auto'') (Str []) [] =
             (Inl (SyntaxError ''Unexpected token < in JSON''), [?rq])"
    by (simp add: translateText_try_def translateWithLibre_def request_defs Let_def config_defs
        demo_defs)
  show ?thesis
    using translateText_never_throws
        [of ?E1 "Str ''hello''" "Str ''pt''" Undefined Undefined "[]" "TypeError ''fetch failed''" "[?rq]"]
      translateText_never_throws
        [of ?E2 "Str ''hello''" "Str ''pt''" Undefined Undefined "[]"
            "Error ''DEEPL_API_KEY not configured''" "[]"]
      translateText_never_throws
        [of ?E3 "Str ''hello''" "Str ''pt''" Undefined Undefined "[]" "Error ''overloaded''"
            "snd (translateText_try ?E3 (Str ''hello'') (Str ''pt'') (Str ''auto'') (Str []) [])"]
      translateText_never_throws
        [of ?E4 "Str ''hello''" "Str ''pt''" Undefined Undefined "[]"
            "SyntaxError ''Unexpected token < in JSON''" "[?rq]"]
      1 2 3 4
    by (simp add: default_param_def prod_eq_iff)
qed

section \<open>Translation: the provider selector\<close>

lemma with_provider_fields [simp]:
  "fetch (with_provider E v) = fetch E"
  "write_outcome (with_provider E v) = write_outcome E"
  "runtime_error (with_provider E v) = runtime_error E"
  "NumberToString (with_provider E v) = NumberToString E"
  "JSON_stringify (with_provider E v) = JSON_stringify E"
  "toUpperCase (with_provider E v) = toUpperCase E"
  "trim (with_provider E v) = trim E"
  "gt_zero (with_provider E v) = gt_zero E"
  by (simp_all add: with_provider_def)

lemma env_val_with_provider:
  "name \<noteq> ''TRANSLATE_PROVIDER'' \<Longrightarrow> env_val (with_provider E v) name = env_val E name"
  by (simp add: env_val_def with_provider_def)

lemma ToString_with_provider [simp]: "ToString (with_provider E v) x = ToString E x"
proof (induction E x rule: ToString.induct)
  case (6 E xs)
  have "map (\<lambda>x. if nullish x then Inr [] else ToString (with_provider E v) x) xs =
        map (\<lambda>x. if nullish x then Inr [] else ToString E x) xs"
    by (rule map_cong) (simp_all add: 6)
  then show ?case unfolding ToString.simps by (rule arg_cong)
qed simp_all

lemma config_with_provider [simp]:
  "OPENPHONE_API (with_provider E v) = OPENPHONE_API E"
  "OPENPHONE_API_KEY (with_provider E v) = OPENPHONE_API_KEY E"
  "OPENPHONE_FROM (with_provider E v) = OPENPHONE_FROM E"
  "OPENPHONE_USER_ID (with_provider E v) = OPENPHONE_USER_ID E"
  "DEEPL_API_KEY (with_provider E v) = DEEPL_API_KEY E"
  "LIBRE_URL (with_provider E v) = LIBRE_URL E"
  "LIBRE_API_KEY (with_provider E v) = LIBRE_API_KEY E"
  "OPENAI_API_KEY (with_provider E v) = OPENAI_API_KEY E"
  by (simp_all add: OPENPHONE_API_def OPENPHONE_API_KEY_def OPENPHONE_FROM_def
      OPENPHONE_USER_ID_def DEEPL_API_KEY_def LIBRE_URL_def LIBRE_API_KEY_def
      OPENAI_API_KEY_def env_val_with_provider)

lemma get_with_provider [simp]: "get (with_provider E v) = get E"
  by (intro ext) (simp add: get_def)

lemma libre_request_with_provider [simp]:
  "libre_request (with_provider E v) = libre_request E"
  by (intro ext) (simp add: libre_request_def)

lemma translateWithLibre_with_provider [simp]:
  "translateWithLibre (with_provider E v) = translateWithLibre E"
  by (intro ext) (simp add: translateWithLibre_def Let_def cong: sum.case_cong)

lemma prompts_with_provider [simp]:
  "systemPrompt (with_provider E v) = systemPrompt E"
  "userPrompt (with_provider E v) = userPrompt E"
  "strictPrompt (with_provider E v) = strictPrompt E"
  by (intro ext, simp add: systemPrompt_def userPrompt_def strictPrompt_def cong: sum.case_cong)+

lemma openai_request_with_provider [simp]:
  "openai_request (with_provider E v) = openai_request E"
  by (intro ext) (simp add: openai_request_def cong: sum.case_cong)

lemma opt_call_trim_with_provider [simp]:
  "opt_call_trim (with_provider E v) = opt_call_trim E"
  by (intro ext) (simp add: opt_call_trim_def split: jsval.splits)

lemma translateWithOpenAI_with_provider [simp]:
  "translateWithOpenAI (with_provider E v) = translateWithOpenAI E"
  by (intro ext) (simp add: translateWithOpenAI_def Let_def cong: sum.case_cong if_cong)

lemma strict_translation_try_with_provider [simp]:
  "strict_translation_try (with_provider E v) = strict_translation_try E"
  by (intro ext) (simp add: strict_translation_try_def cong: sum.case_cong)

lemma send_request_with_provider [simp]:
  "send_request (with_provider E v) = send_request E"
  by (intro ext) (simp add: send_request_def authHeader_def)

lemma send_message_with_provider [simp]:
  "send_message (with_provider E v) = send_message E"
  by (intro ext) (simp add: send_message_def)

lemma TRANSLATE_PROVIDER_with_provider:
  "TRANSLATE_PROVIDER (with_provider E v) =
     (case v of None \<Rightarrow> Str ''LIBRE'' | Some s \<Rightarrow> if s = [] then Str ''LIBRE'' else Str s)"
  by (simp add: TRANSLATE_PROVIDER_def env_val_def with_provider_def or_else_def split: option.splits)

lemma TRANSLATE_PROVIDER_cases:
  "TRANSLATE_PROVIDER E =
     (case process_env E ''TRANSLATE_PROVIDER'' of
        None \<Rightarrow> Str ''LIBRE'' | Some s \<Rightarrow> if s = [] then Str ''LIBRE'' else Str s)"
  by (simp add: TRANSLATE_PROVIDER_def env_val_def or_else_def split: option.splits)

lemma translateWithLibre_calls:
  "snd (translateWithLibre E text targetLang sourceLang calls) =
     calls @ [libre_request E text targetLang sourceLang]"
  by (simp add: translateWithLibre_def Let_def split: sum.splits)

text \<open>
  Claim C9. When the variable \<open>TRANSLATE_PROVIDER\<close> is unset, empty or any string
  other than \<open>DEEPL\<close>, \<open>GOOGLE\<close> and \<open>OPENAI\<close>, the \<open>switch\<close> of
  \<open>translateText\<close> calls the LibreTranslate back-end, and \<open>translateText\<close> gives
  the result it gives in the same process with the variable set to \<open>LIBRE\<close>. For a
  non-empty \<open>text\<close> and \<open>targetLang\<close> the call of \<open>translateText\<close> is the call of
  \<open>translateWithLibre\<close> under the \<open>catch\<close>: it issues exactly one request, the POST
  to \<open>LIBRE_URL/translate\<close>, and returns what LibreTranslate gave, or the text when the
  back-end throws.
\<close>

theorem unrecognized_provider_is_libre:
  assumes "process_env E ''TRANSLATE_PROVIDER'' \<notin> {Some ''DEEPL'', Some ''GOOGLE'', Some ''OPENAI''}"
  shows "translateText_try E text targetLang sourceLang prompt calls =
           translateWithLibre E text targetLang sourceLang calls \<and>
         translateText E text targetLang sourceLang prompt calls =
           translateText (with_provider E (Some ''LIBRE'')) text targetLang sourceLang prompt calls \<and>
         (truthy text \<and> truthy targetLang \<longrightarrow>
            translateText E text targetLang sourceLang prompt calls =
              (case translateWithLibre E text targetLang (default_param sourceLang (Str ''auto''))
                      calls of
                 (Inl error, calls') \<Rightarrow> (Inr text, calls')
               | (Inr translated, calls') \<Rightarrow> (Inr translated, calls')) \<and>
            snd (translateText E text targetLang sourceLang prompt calls) =
              calls @ [libre_request E text targetLang (default_param sourceLang (Str ''auto''))] \<and>
            req_url (libre_request E text targetLang (default_param sourceLang (Str ''auto''))) =
              config_text (LIBRE_URL E) @ ''/translate'' \<and>
            req_method (libre_request E text targetLang (default_param sourceLang (Str ''auto''))) =
              ''POST'' \<and>
            fst (translateText E text targetLang sourceLang prompt calls) =
              (case fetch E calls
                      (libre_request E text targetLang (default_param sourceLang (Str ''auto''))) of
                 Inl e \<Rightarrow> Inr text
               | Inr response \<Rightarrow>
                   (case resp_json response of
                      Inl e \<Rightarrow> Inr text
                    | Inr data \<Rightarrow>
                        if nullish data then Inr text
                        else Inr (or_else (own_prop data ''translatedText'') text))))"
proof -
  have 1: "translateText_try E t l s p c = translateWithLibre E t l s c" for t l s p c
    using assms by (auto simp: translateText_try_def TRANSLATE_PROVIDER_cases split: option.splits)
  have 2: "translateText_try (with_provider E (Some ''LIBRE'')) t l s p c = translateWithLibre E t l s c"
    for t l s p c
    by (simp add: translateText_try_def TRANSLATE_PROVIDER_with_provider)
  have 3: "translateText E text targetLang sourceLang prompt calls =
             translateText (with_provider E (Some ''LIBRE'')) text targetLang sourceLang prompt calls"
    by (simp add: translateText_def 1 2)
  have dispatch: "translateText E text targetLang sourceLang prompt calls =
              (case translateWithLibre E text targetLang (default_param sourceLang (Str ''auto''))
                      calls of
                 (Inl error, calls') \<Rightarrow> (Inr text, calls')
               | (Inr translated, calls') \<Rightarrow> (Inr translated, calls'))"
    if "truthy text" "truthy targetLang"
    using that by (simp add: translateText_def 1 Let_def)
  have issued: "snd (translateText E text targetLang sourceLang prompt calls) =
              calls @ [libre_request E text targetLang (default_param sourceLang (Str ''auto''))]"
    if "truthy text" "truthy targetLang"
    using translateWithLibre_calls [of E "text" targetLang "default_param sourceLang (Str ''auto'')" calls]
      dispatch [OF that]
    by (simp split: prod.splits sum.splits)
  have answer: "fst (translateText E text targetLang sourceLang prompt calls) =
              (case fetch E calls
                      (libre_request E text targetLang (default_param sourceLang (Str ''auto''))) of
                 Inl e \<Rightarrow> Inr text
               | Inr response \<Rightarrow>
                   (case resp_json response of
                      Inl e \<Rightarrow> Inr text
                    | Inr data \<Rightarrow>
                        if nullish data then Inr text
                        else Inr (or_else (own_prop data ''translatedText'') text)))"
    if "truthy text" "truthy targetLang"
    unfolding dispatch [OF that]
    by (simp add: translateWithLibre_def get_def Let_def split: sum.splits)
  have request: "req_url (libre_request E text targetLang (default_param sourceLang (Str ''auto''))) =
              config_text (LIBRE_URL E) @ ''/translate''"
    "req_method (libre_request E text targetLang (default_param sourceLang (Str ''auto''))) = ''POST''"
    by (simp_all add: libre_request_def)
  from 1 3 dispatch issued answer request show ?thesis
    by blast
qed

theorem unrecognized_provider_is_libre_witness:
  "process_env (demo_env [(''TRANSLATE_PROVIDER'', ''AZURE'')] translating) ''TRANSLATE_PROVIDER''
     \<notin> {Some ''DEEPL'', Some ''GOOGLE'', Some ''OPENAI''} \<and>
   translateText (demo_env [(''TRANSLATE_PROVIDER'', ''AZURE'')] translating)
       (Str ''hello'') (Str ''pt'') Undefined Undefined [] =
     (Inr (Str ''ola''),
      [\<lparr>req_url = ''https://libretranslate.com/translate'', req_query = [], req_method = ''POST'',
        req_headers = [(''Content-Type'', ''application/json'')], req_body = TextBody ''{}''\<rparr>]) \<and>
   translateText (with_provider (demo_env [(''TRANSLATE_PROVIDER'', ''AZURE'')] translating)
                    (Some ''LIBRE''))
       (Str ''hello'') (Str ''pt'') Undefined Undefined [] =
     (Inr (Str ''ola''),
      [\<lparr>req_url = ''https://libretranslate.com/translate'', req_query = [], req_method = ''POST'',
        req_headers = [(''Content-Type'', ''application/json'')], req_body = TextBody ''{}''\<rparr>]) \<and>
   process_env (demo_env [] offline) ''TRANSLATE_PROVIDER''
     \<notin> {Some ''DEEPL'', Some ''GOOGLE'', Some ''OPENAI''} \<and>
   translateText (demo_env [] offline) (Str ''hello'') (Str ''pt'') (Str ''en'') Undefined [] =
     (Inr (Str ''hello''),
      [\<lparr>req_url = ''https://libretranslate.com/translate'', req_query = [], req_method = ''POST'',
        req_headers = [(''Content-Type'', ''application/json'')], req_body = TextBody ''{}''\<rparr>])"
proof -
  let ?E = "demo_env [(''TRANSLATE_PROVIDER'', ''AZURE'')] translating"
  let ?rq = "\<lparr>req_url = ''https://libretranslate.com/translate'', req_query = [], req_method = ''POST'',
        req_headers = [(''Content-Type'', ''application/json'')], req_body = TextBody ''{}''\<rparr>"
  have a: "translateWithLibre ?E (Str ''hello'') (Str ''pt'') (Str ''auto'') [] = (Inr (Str ''ola''), [?rq])"
    by (simp add: translateWithLibre_def libre_request_def get_def nullish_def Let_def config_defs
        demo_defs)
  have b: "translateWithLibre (demo_env [] offline) (Str ''hello'') (Str ''pt'') (Str ''en'') [] =
             (Inl (TypeError ''fetch failed''), [?rq])"
    by (simp add: translateWithLibre_def libre_request_def Let_def config_defs demo_defs)
  have h1: "process_env ?E ''TRANSLATE_PROVIDER'' \<notin> {Some ''DEEPL'', Some ''GOOGLE'', Some ''OPENAI''}"
    and h2: "process_env (demo_env [] offline) ''TRANSLATE_PROVIDER''
               \<notin> {Some ''DEEPL'', Some ''GOOGLE'', Some ''OPENAI''}"
    by (simp_all add: demo_env_sel)
  note T1 = unrecognized_provider_is_libre [OF h1, of "Str ''hello''" "Str ''pt''" Undefined Undefined "[]"]
  note T2 = unrecognized_provider_is_libre [OF h2, of "Str ''hello''" "Str ''pt''" "Str ''en''" Undefined "[]"]
  have tr: "truthy (Str ''hello'') \<and> truthy (Str ''pt'')" by simp
  from T1 tr have "translateText ?E (Str ''hello'') (Str ''pt'') Undefined Undefined [] =
      (case translateWithLibre ?E (Str ''hello'') (Str ''pt'') (default_param Undefined (Str ''auto''))
              [] of
         (Inl error, calls') \<Rightarrow> (Inr (Str ''hello''), calls')
       | (Inr translated, calls') \<Rightarrow> (Inr translated, calls'))"
    by blast
  then have v1: "translateText ?E (Str ''hello'') (Str ''pt'') Undefined Undefined [] =
                   (Inr (Str ''ola''), [?rq])"
    by (simp add: default_param_def a)
  from T1 have e1: "translateText ?E (Str ''hello'') (Str ''pt'') Undefined Undefined [] =
                    translateText (with_provider ?E (Some ''LIBRE''))
                       (Str ''hello'') (Str ''pt'') Undefined Undefined []"
    by blast
  from T2 tr have "translateText (demo_env [] offline) (Str ''hello'') (Str ''pt'') (Str ''en'')
        Undefined [] =
      (case translateWithLibre (demo_env [] offline) (Str ''hello'') (Str ''pt'')
              (default_param (Str ''en'') (Str ''auto'')) [] of
         (Inl error, calls') \<Rightarrow> (Inr (Str ''hello''), calls')
       | (Inr translated, calls') \<Rightarrow> (Inr translated, calls'))"
    by blast
  then have v2: "translateText (demo_env [] offline) (Str ''hello'') (Str ''pt'') (Str ''en'')
                   Undefined [] = (Inr (Str ''hello''), [?rq])"
    by (simp add: default_param_def b)
  show ?thesis
    unfolding e1 [symmetric] v1 v2 using h1 h2 by simp
qed

section \<open>Translation: the request to DeepL\<close>

text \<open>
  With a configured key, string language codes and a text that converts to a string,
  the request to DeepL is a POST with a form-encoded body, \<open>target_lang\<close> is the
  upper-cased target code and \<open>source_lang\<close> the upper-cased source code; for the
  source \<open>auto\<close> the field is still in the body: \<open>URLSearchParams\<close> turns the value
  \<open>undefined\<close> of the record into the text \<open>undefined\<close>.
\<close>

lemma translateWithDeepL_request:
  assumes "truthy (DEEPL_API_KEY E)" and "ToString E text = Inr t"
  shows "snd (translateWithDeepL E text (Str target) (Str source) calls) =
     calls @
     [\<lparr>req_url = ''https://api-free.deepl.com/v2/translate'',
       req_query = [],
       req_method = ''POST'',
       req_headers =
         [(''Authorization'', ''DeepL-Auth-Key '' @ config_text (DEEPL_API_KEY E)),
          (''Content-Type'', ''application/x-www-form-urlencoded'')],
       req_body = FormBody
         [(''text'', t),
          (''target_lang'', toUpperCase E target),
          (''source_lang'', if source = ''auto'' then ''undefined'' else toUpperCase E source)]\<rparr>]"
  using assms
  by (simp add: translateWithDeepL_def call_toUpperCase_def URLSearchParams_def Let_def
      split: sum.splits)

text \<open>
  Claim C5. The claim says that the source-language field is omitted from the body
  when \<open>sourceLang\<close> is \<open>auto\<close>. The code passes \<open>undefined\<close> as the value of
  \<open>source_lang\<close> in the record given to \<open>URLSearchParams\<close>, which keeps the field:
  translating \<open>hello\<close> to \<open>pt\<close> from \<open>auto\<close> sends a form body whose third
  field is \<open>source_lang\<close> with the value \<open>undefined\<close>. The content type is
  form-encoded and \<open>target_lang\<close> is upper-cased, as the claim says.
\<close>

theorem deepl_auto_sends_source_lang:
  "snd (translateWithDeepL (demo_env [(''DEEPL_API_KEY'', ''secret'')] offline)
          (Str ''hello'') (Str ''pt'') (Str ''auto'') []) =
     [\<lparr>req_url = ''https://api-free.deepl.com/v2/translate'',
       req_query = [],
       req_method = ''POST'',
       req_headers =
         [(''Authorization'', ''DeepL-Auth-Key secret''),
          (''Content-Type'', ''application/x-www-form-urlencoded'')],
       req_body = FormBody
         [(''text'', ''hello''), (''target_lang'', ''PT''), (''source_lang'', ''undefined'')]\<rparr>]"
  by (simp add: translateWithDeepL_def call_toUpperCase_def URLSearchParams_def Let_def
      config_defs demo_defs)

section \<open>POST /api/messages\<close>

text \<open>
  Claim C7. For every request body (an object or an array, as the JSON body parser
  delivers it: anything but \<open>null\<close> and \<open>undefined\<close>) in which \<open>text\<close> or
  \<open>to\<close> is missing or empty, or in which both are present and neither \<open>from\<close> nor
  \<open>OPENPHONE_FROM\<close> gives a sender, the handler responds 400 and the list of
  upstream requests is the one it started with: no translation call and no send.
\<close>

theorem missing_fields_rejected:
  assumes "\<not> nullish body"
    and "\<not> truthy (own_prop body ''text'') \<or> \<not> truthy (own_prop body ''to'') \<or>
         \<not> truthy (or_else (own_prop body ''from'') (OPENPHONE_FROM E))"
  shows "res_status (fst (post_api_messages E body calls)) = 400 \<and>
         snd (post_api_messages E body calls) = calls"
  using assms by (auto simp: post_api_messages_def post_api_messages_try_def Let_def)

theorem missing_fields_rejected_witness:
  "post_api_messages (demo_env [] demo_upstream) (Obj [(''to'', Str ''+15550001'')]) [] =
     (\<lparr>res_status = 400,
       res_json = Obj [(''error'', Str (''text e to s'' @ [CHR 0xE3] @ ''o obrigat'' @
                                        [CHR 0xF3] @ ''rios''))]\<rparr>, []) \<and>
   post_api_messages (demo_env [] demo_upstream)
       (Obj [(''text'', Str ''hello''), (''to'', Str ''+15550001'')]) [] =
     (\<lparr>res_status = 400,
       res_json = Obj [(''error'',
         Str ''from ausente. Configure OPENPHONE_FROM ou envie no corpo.'')]\<rparr>, [])"
  using missing_fields_rejected [of "Obj [(''to'', Str ''+15550001'')]" "demo_env [] demo_upstream" "[]"]
    missing_fields_rejected [of "Obj [(''text'', Str ''hello''), (''to'', Str ''+15550001'')]"
      "demo_env [] demo_upstream" "[]"]
  by (simp add: nullish_def post_api_messages_def post_api_messages_try_def Let_def
      config_defs demo_defs)

lemma openai_request_url:
  "openai_request E text targetLang prompt = Inr rq \<Longrightarrow>
   req_url rq = ''https://api.openai.com/v1/chat/completions'' \<and> req_method rq = ''POST''"
  by (auto simp: openai_request_def split: sum.splits)

lemma translateWithOpenAI_calls:
  assumes "translateWithOpenAI E text targetLang prompt calls = (r, calls')"
  shows "calls' = calls \<or>
         (\<exists>rq. calls' = calls @ [rq] \<and> req_url rq = ''https://api.openai.com/v1/chat/completions'')"
  using assms
  by (auto simp: translateWithOpenAI_def dest: openai_request_url split: if_splits sum.splits)

lemma strict_translation_try_calls:
  assumes "strict_translation_try E text targetLang calls = (r, calls')"
  shows "calls' = calls \<or>
         (\<exists>rq. calls' = calls @ [rq] \<and> req_url rq = ''https://api.openai.com/v1/chat/completions'')"
  using assms
  by (auto simp: strict_translation_try_def dest: translateWithOpenAI_calls split: sum.splits)

lemma post_api_messages_strict:
  assumes "\<not> nullish body" "truthy (own_prop body ''text'')" "truthy (own_prop body ''to'')"
    "truthy (or_else (own_prop body ''from'') (OPENPHONE_FROM E))"
    "truthy (own_prop body ''targetLang'')" "truthy (own_prop body ''strict'')"
  shows "post_api_messages E body calls =
     (case strict_translation_try E (own_prop body ''text'') (own_prop body ''targetLang'') calls of
        (Inl error, calls') \<Rightarrow> (translation_failed error, calls')
      | (Inr translated, calls') \<Rightarrow>
          (case send_message E translated (or_else (own_prop body ''from'') (OPENPHONE_FROM E))
                  (own_prop body ''to'') (own_prop body ''userId'') calls' of
             (Inr res, calls'') \<Rightarrow> (res, calls'')
           | (Inl e, calls'') \<Rightarrow>
               (\<lparr>res_status = 500, res_json = Obj [(''error'', Str ''Falha ao enviar mensagem'')]\<rparr>,
                calls'')))"
  using assms
  by (simp add: post_api_messages_def post_api_messages_try_def Let_def
      split: prod.splits sum.splits)

text \<open>
  Claim C3. For every request with \<open>strict\<close> and \<open>targetLang\<close> set, \<open>text\<close> and
  \<open>to\<close> present and a sender resolved (so that the translation is attempted), if the
  attempt throws (the inner \<open>try\<close> block: building the prompt, then
  \<open>translateWithOpenAI\<close>) then the handler responds 500 with the provider name
  \<open>openai\<close> and the message of the exception as \<open>details\<close>; the upstream requests
  issued are those of the attempt, at most the one to the translation service: the
  send is not issued and the original text is not sent in place of the translation.
\<close>

theorem strict_failure_surfaces:
  assumes "\<not> nullish body" "truthy (own_prop body ''text'')" "truthy (own_prop body ''to'')"
    "truthy (or_else (own_prop body ''from'') (OPENPHONE_FROM E))"
    "truthy (own_prop body ''targetLang'')" "truthy (own_prop body ''strict'')"
    and "strict_translation_try E (own_prop body ''text'') (own_prop body ''targetLang'') calls =
           (Inl error, calls')"
  shows "post_api_messages E body calls =
           (\<lparr>res_status = 500,
             res_json = Obj [(''error'', Str (''Falha na tradu'' @ [CHR 0xE7, CHR 0xE3] @ ''o'')),
                             (''provider'', Str ''openai''),
                             (''details'', Str (message error))]\<rparr>, calls') \<and>
         (calls' = calls \<or>
          (\<exists>rq. calls' = calls @ [rq] \<and>
                req_url rq = ''https://api.openai.com/v1/chat/completions''))"
  using assms(7) strict_translation_try_calls [OF assms(7)]
  unfolding post_api_messages_strict [OF assms(1-6)]
  by (simp add: translation_failed_def)

text \<open>An overloaded translation service: its message is the detail. A target language
  that cannot be converted to a string: the prompt cannot be built, the detail is the
  runtime's message and no request is issued.\<close>

theorem strict_failure_surfaces_witness:
  "fst (post_api_messages (demo_env [(''OPENAI_API_KEY'', ''sk'')] demo_upstream)
          (Obj [(''text'', Str ''hello''), (''to'', Str ''+15550001''), (''from'', Str ''+15550009''),
                (''targetLang'', Str ''pt''), (''strict'', Bool True)]) []) =
     \<lparr>res_status = 500,
      res_json = Obj [(''error'', Str (''Falha na tradu'' @ [CHR 0xE7, CHR 0xE3] @ ''o'')),
                      (''provider'', Str ''openai''),
                      (''details'', Str ''overloaded'')]\<rparr> \<and>
   map req_url (snd (post_api_messages (demo_env [(''OPENAI_API_KEY'', ''sk'')] demo_upstream)
          (Obj [(''text'', Str ''hello''), (''to'', Str ''+15550001''), (''from'', Str ''+15550009''),
                (''targetLang'', Str ''pt''), (''strict'', Bool True)]) [])) =
     [''https://api.openai.com/v1/chat/completions''] \<and>
   post_api_messages (demo_env [(''OPENAI_API_KEY'', ''sk'')] demo_upstream)
          (Obj [(''text'', Str ''hello''), (''to'', Str ''+15550001''), (''from'', Str ''+15550009''),
                (''targetLang'', Obj [(''toString'', Num 1)]), (''strict'', Bool True)]) [] =
     (\<lparr>res_status = 500,
       res_json = Obj [(''error'', Str (''Falha na tradu'' @ [CHR 0xE7, CHR 0xE3] @ ''o'')),
                       (''provider'', Str ''openai''),
                       (''details'', Str ''Cannot convert object to primitive value'')]\<rparr>, [])"
proof -
  let ?E = "demo_env [(''OPENAI_API_KEY'', ''sk'')] demo_upstream"
  let ?body = "Obj [(''text'', Str ''hello''), (''to'', Str ''+15550001''), (''from'', Str ''+15550009''),
                (''targetLang'', Str ''pt''), (''strict'', Bool True)]"
  let ?body' = "Obj [(''text'', Str ''hello''), (''to'', Str ''+15550001''), (''from'', Str ''+15550009''),
                (''targetLang'', Obj [(''toString'', Num 1)]), (''strict'', Bool True)]"
  let ?attempt = "strict_translation_try ?E (own_prop ?body ''text'') (own_prop ?body ''targetLang'') []"
  have 1: "\<not> nullish ?body" "\<not> nullish ?body'" by (simp_all add: nullish_def)
  have 2: "truthy (own_prop ?body ''text'')" "truthy (own_prop ?body' ''text'')" by simp_all
  have 3: "truthy (own_prop ?body ''to'')" "truthy (own_prop ?body' ''to'')" by simp_all
  have 4: "truthy (or_else (own_prop ?body ''from'') (OPENPHONE_FROM ?E))"
    "truthy (or_else (own_prop ?body' ''from'') (OPENPHONE_FROM ?E))"
    by (simp_all add: or_else_def)
  have 5: "truthy (own_prop ?body ''targetLang'')" "truthy (own_prop ?body' ''targetLang'')"
    by simp_all
  have 6: "truthy (own_prop ?body ''strict'')" "truthy (own_prop ?body' ''strict'')" by simp_all
  have f: "fst ?attempt = Inl (Error ''overloaded'')"
    by (simp add: strict_translation_try_def translateWithOpenAI_def request_defs Let_def
        config_defs demo_defs resp_ok_def opt_get_def nullish_def)
  have u: "map req_url (snd ?attempt) = [''https://api.openai.com/v1/chat/completions'']"
    by (simp add: strict_translation_try_def translateWithOpenAI_def request_defs Let_def
        config_defs demo_defs resp_ok_def opt_get_def nullish_def)
  have 7: "?attempt = (Inl (Error ''overloaded''), snd ?attempt)"
    using f by (simp add: prod_eq_iff)
  have 8: "strict_translation_try ?E (own_prop ?body' ''text'') (own_prop ?body' ''targetLang'') [] =
             (Inl (TypeError ''Cannot convert object to primitive value''), [])"
    by (simp add: strict_translation_try_def strictPrompt_def demo_env_sel)
  show ?thesis
    using strict_failure_surfaces [OF 1(1) 2(1) 3(1) 4(1) 5(1) 6(1) 7] u
      strict_failure_surfaces [OF 1(2) 2(2) 3(2) 4(2) 5(2) 6(2) 8]
    by simp
qed

text \<open>
  Claim C4, amended. The claim gives an empty \<open>text\<close> the conclusion of an empty
  \<open>targetLang\<close> on the strict path too. Non-strict: \<open>translateText\<close> with an empty
  or absent \<open>text\<close> or \<open>targetLang\<close> returns \<open>text\<close> itself, issues no request
  and does not throw. In the handler, strict or not: with an empty or absent
  \<open>targetLang\<close> no translation is attempted, the handler continues with the send alone
  and the content sent is \<open>text\<close>; with an empty or absent \<open>text\<close> the handler
  answers 400 before any translation, with no request: an error is signalled and
  nothing is passed through.
\<close>

theorem translation_pass_through:
  "(\<not> truthy text \<or> \<not> truthy targetLang \<longrightarrow>
      translateText E text targetLang sourceLang prompt calls = (Inr text, calls)) \<and>
   (\<not> nullish body \<and> truthy (own_prop body ''text'') \<and> truthy (own_prop body ''to'') \<and>
    truthy (or_else (own_prop body ''from'') (OPENPHONE_FROM E)) \<and>
    \<not> truthy (own_prop body ''targetLang'') \<longrightarrow>
      post_api_messages_try E body calls =
        send_message E (own_prop body ''text'') (or_else (own_prop body ''from'') (OPENPHONE_FROM E))
          (own_prop body ''to'') (own_prop body ''userId'') calls \<and>
      snd (post_api_messages E body calls) =
        calls @ [send_request E (own_prop body ''text'')
                   (or_else (own_prop body ''from'') (OPENPHONE_FROM E))
                   (own_prop body ''to'') (own_prop body ''userId'')]) \<and>
   (\<not> nullish body \<and> \<not> truthy (own_prop body ''text'') \<longrightarrow>
      post_api_messages E body calls =
        (\<lparr>res_status = 400,
          res_json = Obj [(''error'', Str (''text e to s'' @ [CHR 0xE3] @ ''o obrigat'' @
                                           [CHR 0xF3] @ ''rios''))]\<rparr>, calls))"
proof (intro conjI impI)
  assume "\<not> truthy text \<or> \<not> truthy targetLang"
  then show "translateText E text targetLang sourceLang prompt calls = (Inr text, calls)"
    by (auto simp: translateText_def Let_def)
next
  assume a: "\<not> nullish body \<and> truthy (own_prop body ''text'') \<and> truthy (own_prop body ''to'') \<and>
    truthy (or_else (own_prop body ''from'') (OPENPHONE_FROM E)) \<and>
    \<not> truthy (own_prop body ''targetLang'')"
  then show 1: "post_api_messages_try E body calls =
        send_message E (own_prop body ''text'') (or_else (own_prop body ''from'') (OPENPHONE_FROM E))
          (own_prop body ''to'') (own_prop body ''userId'') calls"
    by (simp add: post_api_messages_try_def Let_def)
  show "snd (post_api_messages E body calls) =
        calls @ [send_request E (own_prop body ''text'')
                   (or_else (own_prop body ''from'') (OPENPHONE_FROM E))
                   (own_prop body ''to'') (own_prop body ''userId'')]"
    unfolding post_api_messages_def 1
    by (simp add: send_message_def Let_def split: sum.splits)
next
  assume "\<not> nullish body \<and> \<not> truthy (own_prop body ''text'')"
  then show "post_api_messages E body calls =
        (\<lparr>res_status = 400,
          res_json = Obj [(''error'', Str (''text e to s'' @ [CHR 0xE3] @ ''o obrigat'' @
                                           [CHR 0xF3] @ ''rios''))]\<rparr>, calls)"
    by (simp add: post_api_messages_def post_api_messages_try_def Let_def)
qed

theorem translation_pass_through_witness:
  "translateText (demo_env [(''OPENPHONE_FROM'', ''+15550009'')] demo_upstream)
       (Str ''hello'') Undefined Undefined Undefined [] = (Inr (Str ''hello''), []) \<and>
   post_api_messages (demo_env [(''OPENPHONE_FROM'', ''+15550009'')] demo_upstream)
       (Obj [(''text'', Str ''hello''), (''to'', Str ''+15550001''), (''strict'', Bool True)]) [] =
     (\<lparr>res_status = 202, res_json = Obj [(''id'', Str ''AC1'')]\<rparr>,
      [send_request (demo_env [(''OPENPHONE_FROM'', ''+15550009'')] demo_upstream)
         (Str ''hello'') (Str ''+15550009'') (Str ''+15550001'') Undefined]) \<and>
   post_api_messages (demo_env [(''OPENPHONE_FROM'', ''+15550009'')] demo_upstream)
       (Obj [(''text'', Str []), (''to'', Str ''+15550001''), (''targetLang'', Str ''pt''),
             (''strict'', Bool True)]) [] =
     (\<lparr>res_status = 400,
       res_json = Obj [(''error'', Str (''text e to s'' @ [CHR 0xE3] @ ''o obrigat'' @
                                        [CHR 0xF3] @ ''rios''))]\<rparr>, [])"
  using translation_pass_through
      [of "Str ''hello''" Undefined "demo_env [(''OPENPHONE_FROM'', ''+15550009'')] demo_upstream"
          Undefined Undefined "[]"
          "Obj [(''text'', Str ''hello''), (''to'', Str ''+15550001''), (''strict'', Bool True)]"]
    translation_pass_through
      [of "Str ''hello''" Undefined "demo_env [(''OPENPHONE_FROM'', ''+15550009'')] demo_upstream"
          Undefined Undefined "[]"
          "Obj [(''text'', Str []), (''to'', Str ''+15550001''), (''targetLang'', Str ''pt''),
             (''strict'', Bool True)]"]
  by (simp add: nullish_def post_api_messages_def send_message_def send_request_def authHeader_def
      Let_def config_defs demo_defs)

text \<open>A strict request with an empty \<open>text\<close> is answered with the error 400, and the
  strict back-end itself has no guard: called with an empty \<open>text\<close> it issues its
  request.\<close>

theorem strict_empty_text_counterexample:
  "fst (post_api_messages (demo_env [(''OPENAI_API_KEY'', ''sk'')] translating)
          (Obj [(''text'', Str []), (''to'', Str ''+15550001''), (''from'', Str ''+15550009''),
                (''targetLang'', Str ''pt''), (''strict'', Bool True)]) []) =
     \<lparr>res_status = 400,
      res_json = Obj [(''error'', Str (''text e to s'' @ [CHR 0xE3] @ ''o obrigat'' @
                                       [CHR 0xF3] @ ''rios''))]\<rparr> \<and>
   map req_url (snd (translateWithOpenAI (demo_env [(''OPENAI_API_KEY'', ''sk'')] translating)
          (Str []) (Str ''pt'') (Str []) [])) =
     [''https://api.openai.com/v1/chat/completions'']"
  by (simp add: post_api_messages_def post_api_messages_try_def nullish_def
      translateWithOpenAI_def request_defs Let_def resp_ok_def opt_get_def opt_call_trim_def
      config_defs demo_defs)

lemma translateWithOpenAI_issues:
  assumes "truthy (OPENAI_API_KEY E)" and "openai_request E text targetLang prompt = Inr rq"
  shows "snd (translateWithOpenAI E text targetLang prompt calls) = calls @ [rq]"
  using assms by (simp add: translateWithOpenAI_def split: sum.splits)

lemma send_message_issues:
  "snd (send_message E content fromNumber to userId calls) =
     calls @ [send_request E content fromNumber to userId]"
  by (simp add: send_message_def Let_def split: sum.splits)

lemma post_api_messages_with_provider:
  assumes "truthy (own_prop body ''strict'')" "truthy (own_prop body ''targetLang'')"
  shows "post_api_messages (with_provider E v) body calls = post_api_messages E body calls"
  using assms
  by (simp add: post_api_messages_def post_api_messages_try_def Let_def
      split: prod.splits sum.splits)

text \<open>
  Claim C10. For every request with \<open>strict\<close> and \<open>targetLang\<close> set, the response
  and the upstream requests of the handler are the same for every value of
  \<open>TRANSLATE_PROVIDER\<close>. When \<open>text\<close>, \<open>to\<close> and a sender are present: if the
  prompt cannot be built the handler answers with the translation failure and no
  request; otherwise the translation is the call of \<open>translateWithOpenAI\<close>, whose
  failure gives the 500 response and whose result is the content that is sent; and
  with a configured key, whatever the provider selector, the first request issued is
  the POST to \<open>api.openai.com\<close>, followed by nothing or by the send: no other
  translation service is asked.
\<close>

theorem strict_ignores_provider:
  assumes "truthy (own_prop body ''strict'')" "truthy (own_prop body ''targetLang'')"
  shows "post_api_messages (with_provider E v) body calls = post_api_messages E body calls \<and>
     (\<not> nullish body \<and> truthy (own_prop body ''text'') \<and> truthy (own_prop body ''to'') \<and>
      truthy (or_else (own_prop body ''from'') (OPENPHONE_FROM E)) \<longrightarrow>
      (strictPrompt E (own_prop body ''targetLang'') = Inl e \<longrightarrow>
         post_api_messages E body calls = (translation_failed e, calls)) \<and>
      (strictPrompt E (own_prop body ''targetLang'') = Inr prompt \<longrightarrow>
         post_api_messages E body calls =
           (case translateWithOpenAI E (own_prop body ''text'') (own_prop body ''targetLang'')
                   prompt calls of
              (Inl error, calls') \<Rightarrow> (translation_failed error, calls')
            | (Inr translated, calls') \<Rightarrow>
                (case send_message E translated (or_else (own_prop body ''from'') (OPENPHONE_FROM E))
                        (own_prop body ''to'') (own_prop body ''userId'') calls' of
                   (Inr res, calls'') \<Rightarrow> (res, calls'')
                 | (Inl e', calls'') \<Rightarrow>
                     (\<lparr>res_status = 500,
                       res_json = Obj [(''error'', Str ''Falha ao enviar mensagem'')]\<rparr>, calls''))) \<and>
         (truthy (OPENAI_API_KEY E) \<and>
          openai_request E (own_prop body ''text'') (own_prop body ''targetLang'') prompt = Inr rq \<longrightarrow>
            req_url rq = ''https://api.openai.com/v1/chat/completions'' \<and>
            req_method rq = ''POST'' \<and>
            (snd (post_api_messages (with_provider E v) body calls) = calls @ [rq] \<or>
             (\<exists>translated.
                snd (post_api_messages (with_provider E v) body calls) =
                  calls @ [rq, send_request E translated
                                 (or_else (own_prop body ''from'') (OPENPHONE_FROM E))
                                 (own_prop body ''to'') (own_prop body ''userId'')])))))"
proof (intro conjI impI)
  show inv: "post_api_messages (with_provider E v) body calls = post_api_messages E body calls"
    by (rule post_api_messages_with_provider [OF assms])
  assume b: "\<not> nullish body \<and> truthy (own_prop body ''text'') \<and> truthy (own_prop body ''to'') \<and>
      truthy (or_else (own_prop body ''from'') (OPENPHONE_FROM E))"
  let ?text = "own_prop body ''text''" and ?lang = "own_prop body ''targetLang''"
  let ?from = "or_else (own_prop body ''from'') (OPENPHONE_FROM E)"
  have strict: "post_api_messages E body calls =
     (case strict_translation_try E ?text ?lang calls of
        (Inl error, calls') \<Rightarrow> (translation_failed error, calls')
      | (Inr translated, calls') \<Rightarrow>
          (case send_message E translated ?from (own_prop body ''to'') (own_prop body ''userId'')
                  calls' of
             (Inr res, calls'') \<Rightarrow> (res, calls'')
           | (Inl e, calls'') \<Rightarrow>
               (\<lparr>res_status = 500, res_json = Obj [(''error'', Str ''Falha ao enviar mensagem'')]\<rparr>,
                calls'')))"
    using b assms by (intro post_api_messages_strict) simp_all
  {
    assume "strictPrompt E ?lang = Inl e"
    then show "post_api_messages E body calls = (translation_failed e, calls)"
      unfolding strict by (simp add: strict_translation_try_def)
  }
  {
    assume p: "strictPrompt E ?lang = Inr prompt"
    then show call: "post_api_messages E body calls =
           (case translateWithOpenAI E ?text ?lang prompt calls of
              (Inl error, calls') \<Rightarrow> (translation_failed error, calls')
            | (Inr translated, calls') \<Rightarrow>
                (case send_message E translated ?from (own_prop body ''to'') (own_prop body ''userId'')
                        calls' of
                   (Inr res, calls'') \<Rightarrow> (res, calls'')
                 | (Inl e', calls'') \<Rightarrow>
                     (\<lparr>res_status = 500,
                       res_json = Obj [(''error'', Str ''Falha ao enviar mensagem'')]\<rparr>, calls'')))"
      unfolding strict by (simp add: strict_translation_try_def)
    assume k: "truthy (OPENAI_API_KEY E) \<and> openai_request E ?text ?lang prompt = Inr rq"
    then show "req_url rq = ''https://api.openai.com/v1/chat/completions''"
      and "req_method rq = ''POST''"
      using openai_request_url by blast+
    obtain r calls1 where t: "translateWithOpenAI E ?text ?lang prompt calls = (r, calls1)"
      by (cases "translateWithOpenAI E ?text ?lang prompt calls")
    have c1: "calls1 = calls @ [rq]"
      using translateWithOpenAI_issues [of E ?text ?lang prompt rq calls] k t by simp
    show "snd (post_api_messages (with_provider E v) body calls) = calls @ [rq] \<or>
             (\<exists>translated.
                snd (post_api_messages (with_provider E v) body calls) =
                  calls @ [rq, send_request E translated ?from
                                 (own_prop body ''to'') (own_prop body ''userId'')])"
    proof (cases r)
      case (Inl error)
      then show ?thesis unfolding inv call t c1 by simp
    next
      case (Inr translated)
      have "snd (post_api_messages E body calls) =
              calls @ [rq, send_request E translated ?from
                             (own_prop body ''to'') (own_prop body ''userId'')]"
        unfolding call t Inr c1
        using send_message_issues [of E translated ?from "own_prop body ''to''"
            "own_prop body ''userId''" "calls @ [rq]"]
        by (auto split: prod.splits sum.splits)
      then show ?thesis unfolding inv by blast
    qed
  }
qed

text \<open>With the selector set to \<open>DEEPL\<close> or unset, the strict request is translated by
  the chat completion and the translation is what is sent.\<close>

theorem strict_ignores_provider_witness:
  "post_api_messages
       (with_provider (demo_env [(''OPENAI_API_KEY'', ''sk'')] translating) (Some ''DEEPL''))
       (Obj [(''text'', Str ''hello world''), (''to'', Str ''+15550001''),
             (''from'', Str ''+15550009''), (''targetLang'', Str ''pt''), (''strict'', Bool True)]) [] =
     (\<lparr>res_status = 202, res_json = Obj [(''id'', Str ''AC1'')]\<rparr>,
      [\<lparr>req_url = ''https://api.openai.com/v1/chat/completions'', req_query = [],
        req_method = ''POST'',
        req_headers = [(''Authorization'', ''Bearer sk''), (''Content-Type'', ''application/json'')],
        req_body = TextBody ''{}''\<rparr>,
       send_request (demo_env [(''OPENAI_API_KEY'', ''sk'')] translating)
         (Str ''ola mundo'') (Str ''+15550009'') (Str ''+15550001'') Undefined]) \<and>
   post_api_messages (demo_env [(''OPENAI_API_KEY'', ''sk'')] translating)
       (Obj [(''text'', Str ''hello world''), (''to'', Str ''+15550001''),
             (''from'', Str ''+15550009''), (''targetLang'', Str ''pt''), (''strict'', Bool True)]) [] =
   post_api_messages
       (with_provider (demo_env [(''OPENAI_API_KEY'', ''sk'')] translating) (Some ''DEEPL''))
       (Obj [(''text'', Str ''hello world''), (''to'', Str ''+15550001''),
             (''from'', Str ''+15550009''), (''targetLang'', Str ''pt''), (''strict'', Bool True)]) []"
proof -
  let ?E = "demo_env [(''OPENAI_API_KEY'', ''sk'')] translating"
  let ?body = "Obj [(''text'', Str ''hello world''), (''to'', Str ''+15550001''),
             (''from'', Str ''+15550009''), (''targetLang'', Str ''pt''), (''strict'', Bool True)]"
  let ?rq = "\<lparr>req_url = ''https://api.openai.com/v1/chat/completions'', req_query = [],
        req_method = ''POST'',
        req_headers = [(''Authorization'', ''Bearer sk''), (''Content-Type'', ''application/json'')],
        req_body = TextBody ''{}''\<rparr>"
  let ?prompt = "Str (''Traduza para pt, preserve sentido e tom, n'' @ [CHR 0xE3] @
          ''o traduza blocos de c'' @ [CHR 0xF3] @
          ''digo Markdown, responda somente com a tradu'' @ [CHR 0xE7, CHR 0xE3] @ ''o.'')"
  have 1: "truthy (own_prop ?body ''strict'')" and 2: "truthy (own_prop ?body ''targetLang'')"
    by simp_all
  have p: "strictPrompt ?E (own_prop ?body ''targetLang'') = Inr ?prompt"
    by (simp add: strictPrompt_def)
  have t: "translateWithOpenAI ?E (own_prop ?body ''text'') (own_prop ?body ''targetLang'') ?prompt [] =
             (Inr (Str ''ola mundo''), [?rq])"
    by (simp add: translateWithOpenAI_def request_defs Let_def resp_ok_def opt_get_def
        opt_call_trim_def nullish_def config_defs demo_defs)
  have s: "send_message ?E (Str ''ola mundo'') (Str ''+15550009'') (Str ''+15550001'') Undefined [?rq] =
             (Inr \<lparr>res_status = 202, res_json = Obj [(''id'', Str ''AC1'')]\<rparr>,
              [?rq, send_request ?E (Str ''ola mundo'') (Str ''+15550009'') (Str ''+15550001'')
                      Undefined])"
    by (simp add: send_message_def send_request_def authHeader_def Let_def config_defs demo_defs)
  note T = strict_ignores_provider [OF 1 2, of ?E "Some ''DEEPL''" "[]" _ ?prompt]
  have b: "\<not> nullish ?body \<and> truthy (own_prop ?body ''text'') \<and> truthy (own_prop ?body ''to'') \<and>
      truthy (or_else (own_prop ?body ''from'') (OPENPHONE_FROM ?E))"
    by (simp add: nullish_def or_else_def)
  from T b p have "post_api_messages ?E ?body [] =
      (case translateWithOpenAI ?E (own_prop ?body ''text'') (own_prop ?body ''targetLang'')
              ?prompt [] of
         (Inl error, calls') \<Rightarrow> (translation_failed error, calls')
       | (Inr translated, calls') \<Rightarrow>
           (case send_message ?E translated (or_else (own_prop ?body ''from'') (OPENPHONE_FROM ?E))
                   (own_prop ?body ''to'') (own_prop ?body ''userId'') calls' of
              (Inr res, calls'') \<Rightarrow> (res, calls'')
            | (Inl e', calls'') \<Rightarrow>
                (\<lparr>res_status = 500,
                  res_json = Obj [(''error'', Str ''Falha ao enviar mensagem'')]\<rparr>, calls'')))"
    by blast
  then have v: "post_api_messages ?E ?body [] =
      (\<lparr>res_status = 202, res_json = Obj [(''id'', Str ''AC1'')]\<rparr>,
       [?rq, send_request ?E (Str ''ola mundo'') (Str ''+15550009'') (Str ''+15550001'') Undefined])"
    unfolding t by (simp add: or_else_def s)
  from T have e: "post_api_messages (with_provider ?E (Some ''DEEPL'')) ?body [] =
                  post_api_messages ?E ?body []"
    by blast
  show ?thesis
    unfolding e v by simp
qed

section \<open>POST /webhooks/openphone\<close>

text \<open>
  Claim C8, amended. The claim says that the handler answers 200 for every body. It
  answers 200 with \<open>{ok: true}\<close> when the \<open>type\<close> of the body is absent,
  \<open>null\<close>, a string or an array, and it broadcasts the body exactly when \<open>type\<close> is
  a string that contains \<open>message\<close> or an array with the element \<open>message\<close>. When
  \<open>type\<close> is a number, a boolean or an object, the test throws and the \<open>catch\<close> of
  the handler answers 500 with \<open>{ok: false}\<close>; nothing is broadcast.
\<close>

theorem webhook_response_by_type:
  "post_webhooks_openphone E event w =
     (let data = sse_data E ''openphone'' event;
          delivered = w\<lparr>sseClients := filter (\<lambda>c. write_outcome E c data = None) (sseClients w),
                         wire := wire w @ map (\<lambda>c. (c, data))
                           (filter (\<lambda>c. write_outcome E c data = None) (sseClients w))\<rparr>;
          ok_true = \<lparr>res_status = 200, res_json = Obj [(''ok'', Bool True)]\<rparr>;
          ok_false = \<lparr>res_status = 500, res_json = Obj [(''ok'', Bool False)]\<rparr>
      in case opt_get event ''type'' of
           Undefined \<Rightarrow> (ok_true, w)
         | Null \<Rightarrow> (ok_true, w)
         | Str s \<Rightarrow> (ok_true, if str_includes s ''message'' then delivered else w)
         | Arr xs \<Rightarrow> (ok_true, if Str ''message'' \<in> set xs then delivered else w)
         | Bool b \<Rightarrow> (ok_false, w)
         | Num r \<Rightarrow> (ok_false, w)
         | Obj fs \<Rightarrow> (ok_false, w))"
  by (simp add: post_webhooks_openphone_def post_webhooks_openphone_try_def
      type_includes_message_def broadcast_result nullish_def Let_def split: jsval.splits)

theorem webhook_response_by_type_witness:
  "post_webhooks_openphone (demo_env [] offline) (Obj [(''type'', Str ''message.received'')])
       \<lparr>sseClients = [1, 2, 3], wire = []\<rparr> =
     (\<lparr>res_status = 200, res_json = Obj [(''ok'', Bool True)]\<rparr>,
      \<lparr>sseClients = [1, 3],
       wire = [(1, ''event: openphone'' @ nl @ ''data: {}'' @ nl @ nl),
               (3, ''event: openphone'' @ nl @ ''data: {}'' @ nl @ nl)]\<rparr>) \<and>
   post_webhooks_openphone (demo_env [] offline) (Obj [(''type'', Str ''call.completed'')])
       \<lparr>sseClients = [1, 2, 3], wire = []\<rparr> =
     (\<lparr>res_status = 200, res_json = Obj [(''ok'', Bool True)]\<rparr>,
      \<lparr>sseClients = [1, 2, 3], wire = []\<rparr>) \<and>
   post_webhooks_openphone (demo_env [] offline) (Obj [(''type'', Bool True)])
       \<lparr>sseClients = [1, 2, 3], wire = []\<rparr> =
     (\<lparr>res_status = 500, res_json = Obj [(''ok'', Bool False)]\<rparr>,
      \<lparr>sseClients = [1, 2, 3], wire = []\<rparr>)"
  using webhook_response_by_type [of "demo_env [] offline" "Obj [(''type'', Str ''message.received'')]"
          "\<lparr>sseClients = [1, 2, 3], wire = []\<rparr>"]
        webhook_response_by_type [of "demo_env [] offline" "Obj [(''type'', Str ''call.completed'')]"
          "\<lparr>sseClients = [1, 2, 3], wire = []\<rparr>"]
        webhook_response_by_type [of "demo_env [] offline" "Obj [(''type'', Bool True)]"
          "\<lparr>sseClients = [1, 2, 3], wire = []\<rparr>"]
  by (simp add: opt_get_def nullish_def sse_data_def demo_env_sel Let_def)

text \<open>The body \<open>{"type": 5}\<close> is answered with 500, not with 200.\<close>

theorem webhook_numeric_type_counterexample:
  "fst (post_webhooks_openphone (demo_env [] offline) (Obj [(''type'', Num 5)])
          \<lparr>sseClients = [1], wire = []\<rparr>) =
     \<lparr>res_status = 500, res_json = Obj [(''ok'', Bool False)]\<rparr> \<and>
   fst (post_webhooks_openphone (demo_env [] offline) (Obj [(''type'', Num 5)])
          \<lparr>sseClients = [1], wire = []\<rparr>) \<noteq>
     \<lparr>res_status = 200, res_json = Obj [(''ok'', Bool True)]\<rparr>"
  by (simp add: post_webhooks_openphone_def post_webhooks_openphone_try_def
      type_includes_message_def opt_get_def nullish_def)

section \<open>GET /api/conversations\<close>

lemma is_solo_defined:
  "\<not> nullish c \<Longrightarrow> is_solo E c = Inr (single_participant c)"
  by (auto simp: is_solo_def get_def single_participant_def split: jsval.splits list.splits)

lemma filter_exn_total:
  "\<forall>x\<in>set xs. p x = Inr (q x) \<Longrightarrow> filter_exn p xs = Inr (filter q xs)"
  by (induction xs) auto

lemma map_of_assign: "map_of (assign fs k v) k = Some v"
  by (induction fs k v rule: assign.induct) auto

lemma assign_assign: "assign (assign fs k v) k v' = assign fs k v'"
  by (induction fs k v rule: assign.induct) auto

lemma last_message_enriched:
  "last_message E c calls = (Inr c', calls') \<Longrightarrow> c' = c \<or> (\<exists>m. c' = set_prop c ''lastMessage'' m)"
  by (auto simp: last_message_def last_message_try_def split: prod.splits sum.splits if_splits)

lemma last_message_returns:
  assumes "\<not> nullish c" and "ToString E (own_prop c ''id'') = Inr s"
  shows "\<exists>c' calls'. last_message E c calls = (Inr c', calls')"
  using assms
  by (auto simp: last_message_def get_def split: prod.splits sum.splits)

lemma last_messages_enriched:
  assumes "\<forall>c\<in>set cs. \<not> nullish c \<and> (\<exists>s. ToString E (own_prop c ''id'') = Inr s)"
  shows "\<exists>cs' calls'. last_messages E cs calls = (Inr cs', calls') \<and>
           list_all2 (\<lambda>c c'. c' = c \<or> (\<exists>m. c' = set_prop c ''lastMessage'' m)) cs cs'"
  using assms
proof (induction cs arbitrary: calls)
  case Nil
  then show ?case by simp
next
  case (Cons c cs)
  from Cons.prems obtain s where "\<not> nullish c" "ToString E (own_prop c ''id'') = Inr s"
    by auto
  then obtain c1 calls1 where 1: "last_message E c calls = (Inr c1, calls1)"
    using last_message_returns by blast
  from Cons.prems have "\<forall>c\<in>set cs. \<not> nullish c \<and> (\<exists>s. ToString E (own_prop c ''id'') = Inr s)"
    by simp
  from Cons.IH [OF this, of calls1] obtain cs1 calls2
    where 2: "last_messages E cs calls1 = (Inr cs1, calls2)"
      and 3: "list_all2 (\<lambda>c c'. c' = c \<or> (\<exists>m. c' = set_prop c ''lastMessage'' m)) cs cs1"
    by blast
  have "last_messages E (c # cs) calls = (Inr (c1 # cs1), calls2)"
    by (simp add: 1 2)
  with last_message_enriched [OF 1] 3 show ?case by simp
qed

lemma discard_groups_page:
  assumes "map_of fs ''data'' = Some (Arr convs)" "\<forall>c\<in>set convs. \<not> nullish c"
  shows "discard_groups E (Obj fs) =
     Inr (Obj (assign fs ''data'' (Arr (filter single_participant convs))),
          [Discarded (int (length convs) - int (length (filter single_participant convs)))
                     (int (length (filter single_participant convs)))])"
proof -
  have "filter_exn (is_solo E) convs = Inr (filter single_participant convs)"
    using assms(2) by (intro filter_exn_total) (simp add: is_solo_defined)
  then show ?thesis
    using assms(1) by (simp add: discard_groups_def Let_def)
qed

text \<open>
  Claim C6, amended. The claim speaks of every page whose \<open>data\<close> field is an array;
  on a page with a \<open>null\<close> entry the filter callback throws and the handler answers
  500. For every upstream page that is an object whose \<open>data\<close> field is an array with
  no \<open>null\<close> entry, and in which the \<open>id\<close> of every one-to-one entry can be
  printed (the console lines of the loop convert it to a string), the handler responds
  with the status of the upstream response and the page in which \<open>data\<close> holds
  exactly the entries whose \<open>participants\<close> field is an array of length 1, in their
  original order, each one unchanged or with its \<open>lastMessage\<close> attached; the number
  of discarded entries it reports is the input length minus the output length, which is
  the number of entries that are not one-to-one.
\<close>

theorem conversations_one_to_one:
  assumes "conversations_request E query = Inr rq"
    and "fetch E calls rq = Inr r"
    and "resp_json r = Inr (Obj fs)"
    and "map_of fs ''data'' = Some (Arr convs)"
    and "\<forall>c\<in>set convs. \<not> nullish c"
    and "\<forall>c\<in>set convs. single_participant c \<longrightarrow> (\<exists>s. ToString E (own_prop c ''id'') = Inr s)"
  shows "\<exists>out calls'.
     get_api_conversations E query calls =
       (\<lparr>res_status = resp_status r, res_json = Obj (assign fs ''data'' (Arr out))\<rparr>,
        [Discarded (int (length convs) - int (length out)) (int (length out))], calls') \<and>
     list_all2 (\<lambda>c c'. c' = c \<or> (\<exists>m. c' = set_prop c ''lastMessage'' m))
       (filter single_participant convs) out \<and>
     int (length convs) - int (length out) =
       int (length (filter (\<lambda>c. \<not> single_participant c) convs))"
proof -
  let ?kept = "filter single_participant convs"
  have "\<forall>c\<in>set ?kept. \<not> nullish c \<and> (\<exists>s. ToString E (own_prop c ''id'') = Inr s)"
    using assms(5,6) by simp
  from last_messages_enriched [OF this, of "calls @ [rq]"]
  obtain out calls' where lm: "last_messages E ?kept (calls @ [rq]) = (Inr out, calls')"
    and rel: "list_all2 (\<lambda>c c'. c' = c \<or> (\<exists>m. c' = set_prop c ''lastMessage'' m)) ?kept out"
    by blast
  from rel have len: "length out = length ?kept"
    by (simp add: list_all2_lengthD)
  have "get_api_conversations E query calls =
       (\<lparr>res_status = resp_status r, res_json = Obj (assign fs ''data'' (Arr out))\<rparr>,
        [Discarded (int (length convs) - int (length out)) (int (length out))], calls')"
    using assms(1-3) lm len
    by (simp add: get_api_conversations_def get_api_conversations_try_def
        discard_groups_page [OF assms(4,5)] get_def nullish_def map_of_assign assign_assign)
  moreover have "int (length convs) - int (length out) =
       int (length (filter (\<lambda>c. \<not> single_participant c) convs))"
    using sum_length_filter_compl [of single_participant convs] len by simp
  ultimately show ?thesis using rel by blast
qed

theorem conversations_one_to_one_witness:
  "get_api_conversations (demo_env [] demo_upstream) (Obj []) [] =
     (\<lparr>res_status = 200,
       res_json = Obj
         [(''data'', Arr
            [Obj [(''id'', Str ''CN1''), (''phoneNumberId'', Str ''PN1''),
                  (''participants'', Arr [Str ''+15550001'']),
                  (''lastMessage'', Obj [(''text'', Str ''ola'')])],
             Obj [(''id'', Str ''CN3''), (''phoneNumberId'', Str ''PN1''),
                  (''participants'', Arr [Str ''+15550004''])]]),
          (''nextPageToken'', Null)]\<rparr>,
      [Discarded 1 2],
      snd (snd (get_api_conversations (demo_env [] demo_upstream) (Obj []) [])))"
proof -
  let ?E = "demo_env [] demo_upstream"
  let ?rq = "\<lparr>req_url = ''https://api.openphone.com/v1/conversations'',
               req_query = [(''maxResults'', ''40'')], req_method = ''GET'',
               req_headers = [(''Authorization'', ''undefined'')], req_body = NoBody\<rparr>"
  let ?fs = "[(''data'', Arr
        [Obj [(''id'', Str ''CN1''), (''phoneNumberId'', Str ''PN1''),
              (''participants'', Arr [Str ''+15550001''])],
         Obj [(''id'', Str ''CN2''), (''phoneNumberId'', Str ''PN1''),
              (''participants'', Arr [Str ''+15550002'', Str ''+15550003''])],
         Obj [(''id'', Str ''CN3''), (''phoneNumberId'', Str ''PN1''),
              (''participants'', Arr [Str ''+15550004''])]]),
      (''nextPageToken'', Null)]"
  have 1: "conversations_request ?E (Obj []) = Inr ?rq"
    by (simp add: conversations_request_def call_toString_def nullish_def authHeader_def
        config_defs demo_env_sel)
  have 2: "fetch ?E [] ?rq = Inr \<lparr>resp_status = 200, resp_json = Inr demo_page\<rparr>"
    by (simp add: demo_env_sel demo_upstream_def)
  have 3: "resp_json \<lparr>resp_status = 200, resp_json = Inr demo_page\<rparr> = Inr (Obj ?fs)"
    by (simp add: demo_page_def)
  have 4: "map_of ?fs ''data'' = Some (Arr
        [Obj [(''id'', Str ''CN1''), (''phoneNumberId'', Str ''PN1''),
              (''participants'', Arr [Str ''+15550001''])],
         Obj [(''id'', Str ''CN2''), (''phoneNumberId'', Str ''PN1''),
              (''participants'', Arr [Str ''+15550002'', Str ''+15550003''])],
         Obj [(''id'', Str ''CN3''), (''phoneNumberId'', Str ''PN1''),
              (''participants'', Arr [Str ''+15550004''])]])"
    by simp
  have 5: "\<forall>c\<in>set [Obj [(''id'', Str ''CN1''), (''phoneNumberId'', Str ''PN1''),
              (''participants'', Arr [Str ''+15550001''])],
         Obj [(''id'', Str ''CN2''), (''phoneNumberId'', Str ''PN1''),
              (''participants'', Arr [Str ''+15550002'', Str ''+15550003''])],
         Obj [(''id'', Str ''CN3''), (''phoneNumberId'', Str ''PN1''),
              (''participants'', Arr [Str ''+15550004''])]]. \<not> nullish c"
    by (simp add: nullish_def)
  have 6: "\<forall>c\<in>set [Obj [(''id'', Str ''CN1''), (''phoneNumberId'', Str ''PN1''),
              (''participants'', Arr [Str ''+15550001''])],
         Obj [(''id'', Str ''CN2''), (''phoneNumberId'', Str ''PN1''),
              (''participants'', Arr [Str ''+15550002'', Str ''+15550003''])],
         Obj [(''id'', Str ''CN3''), (''phoneNumberId'', Str ''PN1''),
              (''participants'', Arr [Str ''+15550004''])]].
            single_participant c \<longrightarrow> (\<exists>s. ToString ?E (own_prop c ''id'') = Inr s)"
    by simp
  show ?thesis
    using conversations_one_to_one [OF 1 2 3 4 5 6]
    by (simp add: get_api_conversations_def get_api_conversations_try_def 1 2 3
        discard_groups_def is_solo_def get_def nullish_def
        last_message_def last_message_try_def messages_request_def URLSearchParams_def
        call_toString_def authHeader_def config_defs resp_ok_def length_gt_zero_def demo_defs)
qed

text \<open>The page \<open>{"data": [conversation, null]}\<close> is answered with 500 and nothing is kept.\<close>

theorem conversations_null_entry_counterexample:
  "fst (get_api_conversations (demo_env [] null_entry_upstream) (Obj []) []) =
     \<lparr>res_status = 500, res_json = Obj [(''error'', Str ''Falha ao carregar conversas'')]\<rparr>"
  by (simp add: get_api_conversations_def get_api_conversations_try_def conversations_request_def
      call_toString_def discard_groups_def is_solo_def get_def nullish_def authHeader_def
      config_defs demo_defs)

end
